theory Spec2Isabelle
  imports Main "HOL-Library.Word"
begin

unbundle bit_operations_syntax

section \<open>Data model (models.py)\<close>

text \<open>
  The three relations the subscription lifecycle works on. A \<^verbatim>\<open>DateTime\<close> is an integer
  count of microseconds, a primary key is a natural number, a Telegram id (BigInteger) is an
  integer, a nullable String column is a \<open>string option\<close>. The JSON column
  \<^verbatim>\<open>payment_details\<close> holds a dictionary of string keys; it is kept as an association
  list in insertion order, a JSON null value being \<open>None\<close>. Primary keys are called
  \<open>uid\<close>, \<open>cid\<close> and \<open>sid\<close> (the source calls each of them \<^verbatim>\<open>id\<close>); the user's
  \<^verbatim>\<open>is_active\<close> is \<open>user_is_active\<close>. The columns \<^verbatim>\<open>created_at\<close> and
  \<^verbatim>\<open>updated_at\<close> are filled by the database server and read by no function of the
  repository layer or of the handlers; they are left out.
\<close>

type_synonym datetime = int

type_synonym json_dict = "(string \<times> string option) list"

record user =
  uid :: nat
  telegram_id :: int
  username :: "string option"
  first_name :: "string option"
  last_name :: "string option"
  user_is_active :: bool

record chat =
  cid :: nat
  telegram_chat_id :: int
  title :: string
  price_amount :: int
  price_currency :: string
  crypto_wallet_address :: "string option"
  crypto_network :: "string option"
  is_active :: bool

record subscription =
  sid :: nat
  user_id :: nat
  chat_id :: nat
  start_date :: datetime
  end_date :: datetime
  status :: string
  payment_id :: "string option"
  payment_details :: "json_dict option"

record store =
  users :: "user list"
  chats :: "chat list"
  subscriptions :: "subscription list"

text \<open>
  The constraints models.py declares: primary keys, the unique columns
  (\<^verbatim>\<open>telegram_id\<close>, \<^verbatim>\<open>telegram_chat_id\<close>, \<^verbatim>\<open>payment_id\<close> when not null) and the two
  foreign keys of a subscription. \<^verbatim>\<open>price_amount\<close> is the Numeric(10, 2) amount in
  hundredths.
\<close>

definition present :: "'a option list \<Rightarrow> 'a list" where
  "present xs = concat (map (\<lambda>x. case x of None \<Rightarrow> [] | Some v \<Rightarrow> [v]) xs)"

definition constraints_ok :: "store \<Rightarrow> bool" where
  "constraints_ok db \<longleftrightarrow>
     distinct (map uid (users db)) \<and>
     distinct (map telegram_id (users db)) \<and>
     distinct (map cid (chats db)) \<and>
     distinct (map telegram_chat_id (chats db)) \<and>
     distinct (map sid (subscriptions db)) \<and>
     distinct (present (map payment_id (subscriptions db))) \<and>
     list_all (\<lambda>x. user_id x \<in> set (map uid (users db)) \<and>
                    chat_id x \<in> set (map cid (chats db))) (subscriptions db)"

text \<open>An autoincrement key: a value above every key of the table.\<close>

definition next_id :: "nat list \<Rightarrow> nat" where
  "next_id ks = Suc (fold max ks 0)"

section \<open>The session (SQLAlchemy's unit of work, as the source uses it)\<close>

text \<open>
  A session holds the committed state of the database (\<open>durable\<close>) and the state its open
  transaction sees (\<open>staged\<close>): the committed rows with the session's pending inserts,
  attribute changes and deletions applied. Queries read \<open>staged\<close> (the session flushes
  before it queries). \<^verbatim>\<open>session.commit()\<close> flushes: the database checks the declared
  constraints, and either the staged state becomes the durable one or the commit raises
  IntegrityError and the transaction is rolled back. \<open>in_begin\<close> says that the code runs
  inside an \<^verbatim>\<open>async with session.begin()\<close> block: a commit inside the block ends the
  block's transaction, and the session refuses any further statement until the block is
  left (InvalidRequestError); outside such a block the session goes on in a new
  transaction. A query parameter for an Integer column that is beyond the column's range
  is refused by the driver when the statement is executed (DataError); the database is
  PostgreSQL (config.py), where Integer has 32 bits.
\<close>

datatype db_error = IntegrityError | MultipleResultsFound | InvalidRequestError | DataError

datatype py_exception = SQLAlchemyError db_error | NameError string | AttributeError

record session =
  durable :: store
  staged :: store
  in_begin :: bool

definition new_session :: "store \<Rightarrow> session" where
  "new_session db = \<lparr>durable = db, staged = db, in_begin = False\<rparr>"

definition session_begin :: "session \<Rightarrow> session" where
  "session_begin s = s\<lparr>in_begin := True\<rparr>"

definition bind_integer :: "nat \<Rightarrow> db_error + nat" where
  "bind_integer n = (if n \<le> 2147483647 then Inr n else Inl DataError)"

definition rollback :: "session \<Rightarrow> session" where
  "rollback s = s\<lparr>staged := durable s\<rparr>"

definition commit :: "session \<Rightarrow> session \<times> db_error option" where
  "commit s =
     (if constraints_ok (staged s) then (s\<lparr>durable := staged s\<rparr>, None)
      else (rollback s, Some IntegrityError))"

definition scalar_one_or_none :: "'a list \<Rightarrow> db_error + 'a option" where
  "scalar_one_or_none rows =
     (case rows of
        [] \<Rightarrow> Inr None
      | [r] \<Rightarrow> Inr (Some r)
      | _ \<Rightarrow> Inl MultipleResultsFound)"

definition add_user :: "session \<Rightarrow> user \<Rightarrow> session" where
  "add_user s u =
     (if uid u \<in> set (map uid (users (staged s))) then s
      else s\<lparr>staged := (staged s)\<lparr>users := users (staged s) @ [u]\<rparr>\<rparr>)"

definition add_chat :: "session \<Rightarrow> chat \<Rightarrow> session" where
  "add_chat s c =
     (if cid c \<in> set (map cid (chats (staged s))) then s
      else s\<lparr>staged := (staged s)\<lparr>chats := chats (staged s) @ [c]\<rparr>\<rparr>)"

definition add_subscription :: "session \<Rightarrow> subscription \<Rightarrow> session" where
  "add_subscription s x =
     (if sid x \<in> set (map sid (subscriptions (staged s))) then s
      else s\<lparr>staged := (staged s)\<lparr>subscriptions := subscriptions (staged s) @ [x]\<rparr>\<rparr>)"

text \<open>
  An attribute assignment on a loaded object changes the row with that primary key in the
  session's view; \<^verbatim>\<open>session.delete\<close> marks the row for deletion.
\<close>

definition set_user :: "session \<Rightarrow> user \<Rightarrow> session" where
  "set_user s u =
     s\<lparr>staged := (staged s)\<lparr>users := map (\<lambda>v. if uid v = uid u then u else v) (users (staged s))\<rparr>\<rparr>"

definition set_chat :: "session \<Rightarrow> chat \<Rightarrow> session" where
  "set_chat s c =
     s\<lparr>staged := (staged s)\<lparr>chats := map (\<lambda>d. if cid d = cid c then c else d) (chats (staged s))\<rparr>\<rparr>"

definition set_subscription :: "session \<Rightarrow> subscription \<Rightarrow> session" where
  "set_subscription s x =
     s\<lparr>staged := (staged s)\<lparr>subscriptions :=
          map (\<lambda>y. if sid y = sid x then x else y) (subscriptions (staged s))\<rparr>\<rparr>"

definition delete_chat :: "session \<Rightarrow> chat \<Rightarrow> session" where
  "delete_chat s c =
     s\<lparr>staged := (staged s)\<lparr>chats := filter (\<lambda>d. cid d \<noteq> cid c) (chats (staged s))\<rparr>\<rparr>"

text \<open>The relationships \<^verbatim>\<open>Subscription.user\<close> and \<^verbatim>\<open>Subscription.chat\<close>.\<close>

definition rel_user :: "store \<Rightarrow> subscription \<Rightarrow> user option" where
  "rel_user db x = find (\<lambda>u. uid u = user_id x) (users db)"

definition rel_chat :: "store \<Rightarrow> subscription \<Rightarrow> chat option" where
  "rel_chat db x = find (\<lambda>c. cid c = chat_id x) (chats db)"

section \<open>Repository operations (db\_utils.py)\<close>

text \<open>
  Every operation takes the session and returns it with its result: \<open>Inl\<close> is the
  SQLAlchemyError the source re-raises, \<open>Inr\<close> the value it returns. The clock
  (\<^verbatim>\<open>datetime.utcnow()\<close>) is the argument \<open>now\<close>.
\<close>

definition timedelta_days :: "int \<Rightarrow> int" where
  "timedelta_days d = d * 86400000000"

definition find_user :: "session \<Rightarrow> int \<Rightarrow> db_error + user option" where
  "find_user s tid = scalar_one_or_none (filter (\<lambda>u. telegram_id u = tid) (users (staged s)))"

definition new_user :: "store \<Rightarrow> int \<Rightarrow> user" where
  "new_user db tid =
     \<lparr>uid = next_id (map uid (users db)), telegram_id = tid, username = None,
      first_name = None, last_name = None, user_is_active = True\<rparr>"

text \<open>
  Lines 23 to 27 of \<^verbatim>\<open>get_user_by_telegram_id\<close>: add the new user, commit, refresh.
  \<^verbatim>\<open>session.refresh(user)\<close> is a statement on the session after the commit: inside
  a \<^verbatim>\<open>begin()\<close> block it raises, and the \<^verbatim>\<open>except\<close> clause rolls back and
  re-raises, the new user being committed already; outside it reloads the row.
\<close>

definition insert_user :: "session \<Rightarrow> int \<Rightarrow> session \<times> (db_error + user)" where
  "insert_user s tid =
     (let u = new_user (staged s) tid in
      case commit (add_user s u) of
        (s', Some e) \<Rightarrow> (rollback s', Inl e)
      | (s', None) \<Rightarrow>
          if in_begin s' then (rollback s', Inl InvalidRequestError) else (s', Inr u))"

definition get_user_by_telegram_id :: "session \<Rightarrow> int \<Rightarrow> session \<times> (db_error + user)" where
  "get_user_by_telegram_id s tid =
     (case find_user s tid of
        Inl e \<Rightarrow> (rollback s, Inl e)
      | Inr (Some u) \<Rightarrow> (s, Inr u)
      | Inr None \<Rightarrow> insert_user s tid)"



definition create_subscription ::
  "datetime \<Rightarrow> session \<Rightarrow> nat \<Rightarrow> nat \<Rightarrow> int \<Rightarrow> string \<Rightarrow> string option \<Rightarrow> json_dict option
     \<Rightarrow> session \<times> (db_error + subscription)" where
  "create_subscription now s user_id' chat_id' duration_days status' payment_id' payment_details' =
     (let start_date' = now;
          end_date' = start_date' + timedelta_days duration_days;
          new_subscription =
            \<lparr>sid = next_id (map sid (subscriptions (staged s))),
             user_id = user_id', chat_id = chat_id',
             start_date = start_date', end_date = end_date',
             status = status', payment_id = payment_id',
             payment_details = payment_details'\<rparr>
      in (add_subscription s new_subscription, Inr new_subscription))"

definition get_active_subscriptions ::
  "datetime \<Rightarrow> session \<Rightarrow> int \<Rightarrow> session \<times> (db_error + (subscription \<times> chat option) list)" where
  "get_active_subscriptions now s user_telegram_id =
     (s, Inr (concat (map (\<lambda>x.
         map (\<lambda>u. (x, rel_chat (staged s) x))
           (filter (\<lambda>u. uid u = user_id x \<and> telegram_id u = user_telegram_id \<and>
                        status x = ''active'' \<and> end_date x > now) (users (staged s))))
         (subscriptions (staged s)))))"

definition get_subscriptions_ending_soon ::
  "datetime \<Rightarrow> session \<Rightarrow> int
     \<Rightarrow> session \<times> (db_error + (subscription \<times> user option \<times> chat option) list)" where
  "get_subscriptions_ending_soon now s days_ahead =
     (let target_date = now + timedelta_days days_ahead in
      (s, Inr (map (\<lambda>x. (x, rel_user (staged s) x, rel_chat (staged s) x))
                 (filter (\<lambda>x. status x = ''active'' \<and> end_date x > now \<and> end_date x \<le> target_date)
                    (subscriptions (staged s))))))"

definition get_expired_subscriptions ::
  "datetime \<Rightarrow> session \<Rightarrow> session \<times> (db_error + (subscription \<times> user option \<times> chat option) list)" where
  "get_expired_subscriptions now s =
     (s, Inr (map (\<lambda>x. (x, rel_user (staged s) x, rel_chat (staged s) x))
                (filter (\<lambda>x. status x = ''active'' \<and> end_date x \<le> now)
                   (subscriptions (staged s)))))"

definition update_subscription_status ::
  "session \<Rightarrow> nat \<Rightarrow> string \<Rightarrow> session \<times> (db_error + subscription option)" where
  "update_subscription_status s subscription_id new_status =
     (case scalar_one_or_none (filter (\<lambda>x. sid x = subscription_id) (subscriptions (staged s))) of
        Inl e \<Rightarrow> (s, Inl e)
      | Inr (Some x) \<Rightarrow>
          (set_subscription s (x\<lparr>status := new_status\<rparr>), Inr (Some (x\<lparr>status := new_status\<rparr>)))
      | Inr None \<Rightarrow> (s, Inr None))"

definition get_chat_by_id :: "session \<Rightarrow> nat \<Rightarrow> session \<times> (db_error + chat option)" where
  "get_chat_by_id s chat_id' =
     (case scalar_one_or_none (filter (\<lambda>c. cid c = chat_id') (chats (staged s))) of
        Inl e \<Rightarrow> (s, Inl e)
      | Inr r \<Rightarrow> (s, Inr r))"

definition get_all_managed_chats :: "session \<Rightarrow> session \<times> (db_error + chat list)" where
  "get_all_managed_chats s = (s, Inr (filter (\<lambda>c. is_active c = True) (chats (staged s))))"

definition get_subscription_by_id ::
  "session \<Rightarrow> nat \<Rightarrow> session \<times> (db_error + (subscription \<times> user option \<times> chat option) option)" where
  "get_subscription_by_id s subscription_id =
     (case scalar_one_or_none (filter (\<lambda>x. sid x = subscription_id) (subscriptions (staged s))) of
        Inl e \<Rightarrow> (s, Inl e)
      | Inr None \<Rightarrow> (s, Inr None)
      | Inr (Some x) \<Rightarrow> (s, Inr (Some (x, rel_user (staged s) x, rel_chat (staged s) x))))"

definition create_chat ::
  "session \<Rightarrow> int \<Rightarrow> string \<Rightarrow> int \<Rightarrow> string \<Rightarrow> string option \<Rightarrow> string option \<Rightarrow> bool
     \<Rightarrow> session \<times> (db_error + chat)" where
  "create_chat s telegram_chat_id' title' price_amount' price_currency'
       crypto_wallet_address' crypto_network' is_active' =
     (case scalar_one_or_none
             (filter (\<lambda>c. telegram_chat_id c = telegram_chat_id') (chats (staged s))) of
        Inl e \<Rightarrow> (s, Inl e)
      | Inr (Some existing_chat) \<Rightarrow>
          (let c = existing_chat\<lparr>title := title', price_amount := price_amount',
                     price_currency := price_currency',
                     crypto_wallet_address := crypto_wallet_address',
                     crypto_network := crypto_network', is_active := is_active'\<rparr>
           in (set_chat s c, Inr c))
      | Inr None \<Rightarrow>
          (let c = \<lparr>cid = next_id (map cid (chats (staged s))),
                    telegram_chat_id = telegram_chat_id', title = title',
                    price_amount = price_amount', price_currency = price_currency',
                    crypto_wallet_address = crypto_wallet_address',
                    crypto_network = crypto_network', is_active = is_active'\<rparr>
           in (add_chat s c, Inr c)))"

text \<open>
  The keyword arguments of \<^verbatim>\<open>update_chat_details\<close>: the six attributes its docstring
  names, and any name a chat has no attribute for, which is logged and skipped.
\<close>

datatype chat_kwarg =
    Title string
  | PriceAmount int
  | PriceCurrency string
  | CryptoWalletAddress "string option"
  | CryptoNetwork "string option"
  | IsActive bool
  | NoSuchAttribute string

fun setattr_chat :: "chat \<Rightarrow> chat_kwarg \<Rightarrow> chat" where
  "setattr_chat c (Title v) = c\<lparr>title := v\<rparr>"
| "setattr_chat c (PriceAmount v) = c\<lparr>price_amount := v\<rparr>"
| "setattr_chat c (PriceCurrency v) = c\<lparr>price_currency := v\<rparr>"
| "setattr_chat c (CryptoWalletAddress v) = c\<lparr>crypto_wallet_address := v\<rparr>"
| "setattr_chat c (CryptoNetwork v) = c\<lparr>crypto_network := v\<rparr>"
| "setattr_chat c (IsActive v) = c\<lparr>is_active := v\<rparr>"
| "setattr_chat c (NoSuchAttribute k) = c"

definition update_chat_details ::
  "session \<Rightarrow> nat \<Rightarrow> chat_kwarg list \<Rightarrow> session \<times> (db_error + chat option)" where
  "update_chat_details s chat_id' kwargs =
     (case get_chat_by_id s chat_id' of
        (s', Inl e) \<Rightarrow> (s', Inl e)
      | (s', Inr (Some c)) \<Rightarrow>
          (let c' = fold (\<lambda>kw d. setattr_chat d kw) kwargs c in (set_chat s' c', Inr (Some c')))
      | (s', Inr None) \<Rightarrow> (s', Inr None))"

definition delete_chat_by_id :: "session \<Rightarrow> nat \<Rightarrow> session \<times> (db_error + bool)" where
  "delete_chat_by_id s chat_id' =
     (case get_chat_by_id s chat_id' of
        (s', Inl e) \<Rightarrow> (s', Inl e)
      | (s', Inr (Some c)) \<Rightarrow> (delete_chat s' c, Inr True)
      | (s', Inr None) \<Rightarrow> (s', Inr False))"

section \<open>What a handler is given\<close>

text \<open>
  A callback query carries the sender (\<^verbatim>\<open>query.from_user\<close>), the callback data and
  whether the message it came from is still there (\<^verbatim>\<open>query.message\<close>). The environment
  holds what a handler reads from outside: the clock, the random UUID, for the k-th
  \<^verbatim>\<open>bot.send_message\<close> of a run whether it succeeds (\<open>send_ok k\<close>; it raises otherwise),
  what \<^verbatim>\<open>session.refresh\<close> does when the handler calls it after its session block has
  ended (\<open>None\<close>: it succeeds), and whether the text of an IntegrityError contains
  "foreign key constraint".
\<close>

record callback_query =
  from_user_id :: int
  from_username :: "string option"
  from_first_name :: "string option"
  from_last_name :: "string option"
  data :: string
  has_message :: bool

record env =
  utcnow :: datetime
  uuid4 :: "128 word"
  send_ok :: "nat \<Rightarrow> bool"
  refresh_detached :: "db_error option"
  integrity_text_has_fk :: bool

text \<open>\<^verbatim>\<open>query.data.split('_')[-1]\<close>, \<^verbatim>\<open>str.isdigit\<close> and \<^verbatim>\<open>int\<close> on ASCII text.\<close>

definition last_field :: "string \<Rightarrow> string" where
  "last_field d = rev (takeWhile (\<lambda>c. c \<noteq> CHR ''_'') (rev d))"

definition isdigit :: "string \<Rightarrow> bool" where
  "isdigit d \<longleftrightarrow> d \<noteq> [] \<and> list_all (\<lambda>c. c \<in> set ''0123456789'') d"

definition int_of_str :: "string \<Rightarrow> nat" where
  "int_of_str d = foldl (\<lambda>a c. 10 * a + (of_char c - 48)) 0 d"

text \<open>\<^verbatim>\<open>uuid.uuid4().hex[:10].upper()\<close>: the 32 lower-case hexadecimal digits of the
  128-bit value, most significant first, cut to ten and upper-cased.\<close>

definition hex_char :: "nat \<Rightarrow> char" where
  "hex_char d = ''0123456789abcdef'' ! d"

definition uuid_hex :: "128 word \<Rightarrow> string" where
  "uuid_hex u = map (\<lambda>i. hex_char (unat (drop_bit (4 * (31 - i)) u AND 15))) [0..<32]"

definition upper_char :: "char \<Rightarrow> char" where
  "upper_char c =
     (case map_of (zip ''abcdefghijklmnopqrstuvwxyz'' ''ABCDEFGHIJKLMNOPQRSTUVWXYZ'') c of
        Some C \<Rightarrow> C
      | None \<Rightarrow> c)"

definition payment_reference_of :: "128 word \<Rightarrow> string" where
  "payment_reference_of u = ''PAYREF-'' @ map upper_char (take 10 (uuid_hex u))"

text \<open>What a handler shows the user, one constructor per message of the source.\<close>

datatype reply =
    InvalidChatSelection
  | SelectedChatNotFound
  | PaymentInfo chat int string nat
  | SelectionDatabaseError
  | InvalidSubscriptionReference
  | SubscriptionNotFound
  | NotYourSubscription
  | AlreadyActive string datetime
  | CouldNotUpdateSubscription
  | PaymentConfirmed string datetime
  | AddedToChatPlaceholder int string
  | ConfirmDatabaseError
  | ConfirmUnexpectedError
  | InvalidChatId
  | ChatRemoved nat
  | ChatNotFoundForRemoval nat
  | ChatDatabaseError
  | ChatStillReferenced

section \<open>The lifecycle handlers (handlers.py)\<close>

text \<open>
  A handler opens a session on the database, runs inside \<^verbatim>\<open>session.begin()\<close> and leaves
  the database in the durable state of its session. An exception that leaves the
  \<^verbatim>\<open>begin()\<close> block rolls the transaction back; a \<^verbatim>\<open>return\<close> inside it ends the
  transaction with nothing staged. The two handlers of this file take a primary key from
  the callback data and pass it to a query on an Integer column (\<open>bind_integer\<close>): for a
  number beyond the column's range the query raises and the handler shows its database
  error message.
\<close>

definition touch_up :: "callback_query \<Rightarrow> user \<Rightarrow> user" where
  "touch_up query u =
     (let u1 = (case from_username query of
                  Some n \<Rightarrow> if n \<noteq> [] \<and> username u \<noteq> Some n then u\<lparr>username := Some n\<rparr> else u
                | None \<Rightarrow> u);
          u2 = (case from_first_name query of
                  Some n \<Rightarrow> if n \<noteq> [] \<and> first_name u1 \<noteq> Some n then u1\<lparr>first_name := Some n\<rparr> else u1
                | None \<Rightarrow> u1)
      in (case from_last_name query of
            Some n \<Rightarrow> if n \<noteq> [] \<and> last_name u2 \<noteq> Some n then u2\<lparr>last_name := Some n\<rparr> else u2
          | None \<Rightarrow> u2))"

definition select_chat_callback :: "env \<Rightarrow> callback_query \<Rightarrow> store \<Rightarrow> store \<times> reply" where
  "select_chat_callback e query db =
     (let user_id' = from_user_id query;
          chat_id_str = last_field (data query)
      in if \<not> isdigit chat_id_str then (db, InvalidChatSelection)
         else
           (case bind_integer (int_of_str chat_id_str) of
              Inl err \<Rightarrow> (db, SelectionDatabaseError)
            | Inr chat_id' \<Rightarrow>
           (case get_chat_by_id (session_begin (new_session db)) chat_id' of
              (s1, Inl err) \<Rightarrow> (durable (rollback s1), SelectionDatabaseError)
            | (s1, Inr None) \<Rightarrow> (durable s1, SelectedChatNotFound)
            | (s1, Inr (Some c)) \<Rightarrow>
                (case get_user_by_telegram_id s1 user_id' of
                   (s2, Inl err) \<Rightarrow> (durable (rollback s2), SelectionDatabaseError)
                 | (s2, Inr u0) \<Rightarrow>
                     (let u = touch_up query u0;
                          s3 = add_user (set_user s2 u) u;
                          duration_days = 30;
                          payment_reference = payment_reference_of (uuid4 e)
                      in case create_subscription (utcnow e) s3 (uid u) (cid c) duration_days
                                ''pending_payment'' (Some payment_reference)
                                (Some [(''generated_wallet'', crypto_wallet_address c),
                                       (''network'', crypto_network c),
                                       (''reference'', Some payment_reference)]) of
                           (s4, Inl err) \<Rightarrow> (durable (rollback s4), SelectionDatabaseError)
                         | (s4, Inr new_subscription) \<Rightarrow>
                             (case commit (add_subscription s4 new_subscription) of
                                (s5, Some err) \<Rightarrow> (durable s5, SelectionDatabaseError)
                              | (s5, None) \<Rightarrow>
                                  (case refresh_detached e of
                                     Some err \<Rightarrow> (durable s5, SelectionDatabaseError)
                                   | None \<Rightarrow>
                                       (durable s5,
                                        PaymentInfo c duration_days payment_reference
                                          (sid new_subscription)))))))))"

text \<open>
  \<^verbatim>\<open>confirm_payment_callback\<close> reads the name \<^verbatim>\<open>user\<close> in its ownership test
  (\<^verbatim>\<open>subscription_to_update.user_id != user.id\<close>). The function never assigns that
  name, so Python looks it up among the globals of handlers.py when the line runs: the
  argument \<open>user_binding\<close> is what that lookup finds, \<open>None\<close> when the name is unbound and
  the line raises NameError. The module binds no such name (\<open>handlers_global_user\<close>).
  The NameError leaves the transaction (rollback) and reaches \<^verbatim>\<open>except Exception\<close>,
  which answers only when \<^verbatim>\<open>query.message\<close> is there.
\<close>

definition unexpected :: "callback_query \<Rightarrow> reply list" where
  "unexpected query = (if has_message query then [ConfirmUnexpectedError] else [])"

definition confirm_payment_body ::
  "user option \<Rightarrow> env \<Rightarrow> callback_query \<Rightarrow> store \<Rightarrow> store \<times> reply list" where
  "confirm_payment_body user_binding e query db =
     (let subscription_id_str = last_field (data query)
      in if \<not> isdigit subscription_id_str then (db, [InvalidSubscriptionReference])
         else
           (case bind_integer (int_of_str subscription_id_str) of
              Inl err \<Rightarrow> (db, [ConfirmDatabaseError])
            | Inr subscription_id \<Rightarrow>
           (case get_subscription_by_id (session_begin (new_session db)) subscription_id of
              (s1, Inl err) \<Rightarrow> (durable (rollback s1), [ConfirmDatabaseError])
            | (s1, Inr None) \<Rightarrow> (durable s1, [SubscriptionNotFound])
            | (s1, Inr (Some (subscription_to_update, sub_user, sub_chat))) \<Rightarrow>
                (case user_binding of
                   None \<Rightarrow> (durable (rollback s1), unexpected query)
                 | Some user' \<Rightarrow>
                     if user_id subscription_to_update \<noteq> uid user'
                     then (durable s1, [NotYourSubscription])
                     else if status subscription_to_update = ''active''
                     then (case sub_chat of
                             None \<Rightarrow> (durable (rollback s1), unexpected query)
                           | Some c \<Rightarrow>
                               (durable s1,
                                [AlreadyActive (title c) (end_date subscription_to_update)]))
                     else
                       (case update_subscription_status s1 subscription_id ''active'' of
                          (s2, Inl err) \<Rightarrow> (durable (rollback s2), [ConfirmDatabaseError])
                        | (s2, Inr None) \<Rightarrow> (durable s2, [CouldNotUpdateSubscription])
                        | (s2, Inr (Some updated_subscription)) \<Rightarrow>
                            (case commit s2 of
                               (s3, Some err) \<Rightarrow> (durable s3, [ConfirmDatabaseError])
                             | (s3, None) \<Rightarrow>
                                 (case refresh_detached e of
                                    Some err \<Rightarrow> (durable s3, [ConfirmDatabaseError])
                                  | None \<Rightarrow>
                                      (case (rel_chat (durable s3) updated_subscription,
                                             rel_user (durable s3) updated_subscription) of
                                         (Some c, Some u) \<Rightarrow>
                                           (durable s3,
                                            PaymentConfirmed (title c)
                                                (end_date updated_subscription) #
                                            (if send_ok e 0
                                             then [AddedToChatPlaceholder (telegram_id u) (title c)]
                                             else []))
                                       | _ \<Rightarrow> (durable s3, unexpected query)))))))))"

definition handlers_global_user :: "user option" where
  "handlers_global_user = None"

definition confirm_payment_callback :: "env \<Rightarrow> callback_query \<Rightarrow> store \<Rightarrow> store \<times> reply list" where
  "confirm_payment_callback = confirm_payment_body handlers_global_user"

section \<open>The expiry sweep (handlers.py)\<close>

text \<open>
  The run is recorded as the list of what it did, in order: the transaction opening, each
  status flip staged in the session (the subscription's id), each notification sent or
  failed (recipient and text), a record whose update found no row, and the commit or
  rollback that ends the transaction.
\<close>

datatype event =
    Begin
  | Flipped nat
  | Sent int string
  | SendFailed int string
  | NotUpdated nat
  | Commit
  | Rollback

definition expired_text :: "chat \<Rightarrow> string" where
  "expired_text c = ''Your subscription to **'' @ title c @ ''** has expired.''"

definition removed_text :: "chat \<Rightarrow> string" where
  "removed_text c =
     ''Placeholder: You would now be removed from the chat '' @ [CHR 0x27] @ title c @
     [CHR 0x27] @ ''. (This is a simulated action)''"

text \<open>
  The two messages of one record sit in one \<^verbatim>\<open>try\<close>: when the first send raises,
  the second is not attempted; either failure is logged and the loop goes on.
\<close>

definition notify_expired :: "(nat \<Rightarrow> bool) \<Rightarrow> nat \<Rightarrow> user \<Rightarrow> chat \<Rightarrow> nat \<times> event list" where
  "notify_expired ok n u c =
     (if ok n
      then (if ok (n + 1)
            then (n + 2, [Sent (telegram_id u) (expired_text c),
                          Sent (telegram_id u) (removed_text c)])
            else (n + 2, [Sent (telegram_id u) (expired_text c),
                          SendFailed (telegram_id u) (removed_text c)]))
      else (n + 1, [SendFailed (telegram_id u) (expired_text c)]))"

fun expire_each ::
  "(nat \<Rightarrow> bool) \<Rightarrow> (subscription \<times> user option \<times> chat option) list \<Rightarrow> session \<Rightarrow> nat
     \<Rightarrow> event list \<Rightarrow> session \<times> event list \<times> py_exception option" where
  "expire_each ok [] s n log = (s, log, None)"
| "expire_each ok ((sub, sub_user, sub_chat) # rest) s n log =
     (case (sub_user, sub_chat) of
        (Some u, Some c) \<Rightarrow>
          (case update_subscription_status s (sid sub) ''expired'' of
             (s', Inl err) \<Rightarrow> (s', log, Some (SQLAlchemyError err))
           | (s', Inr None) \<Rightarrow> expire_each ok rest s' n (log @ [NotUpdated (sid sub)])
           | (s', Inr (Some updated_sub)) \<Rightarrow>
               (case notify_expired ok n u c of
                  (n', evs) \<Rightarrow>
                    expire_each ok rest s' n' (log @ Flipped (sid sub) # evs)))
      | _ \<Rightarrow> (s, log, Some AttributeError))"

definition process_expired_subscriptions :: "env \<Rightarrow> store \<Rightarrow> store \<times> event list" where
  "process_expired_subscriptions e db =
     (case get_expired_subscriptions (utcnow e) (session_begin (new_session db)) of
        (s1, Inl err) \<Rightarrow> (durable (rollback s1), [Begin, Rollback])
      | (s1, Inr expired_subs) \<Rightarrow>
          (case expire_each (send_ok e) expired_subs s1 0 [Begin] of
             (s2, log, Some exn) \<Rightarrow> (durable (rollback s2), log @ [Rollback])
           | (s2, log, None) \<Rightarrow>
               (case commit s2 of
                  (s3, Some err) \<Rightarrow> (durable s3, log @ [Rollback])
                | (s3, None) \<Rightarrow> (durable s3, log @ [Commit]))))"

section \<open>Removing a chat (admin\_handlers.py)\<close>

text \<open>
  The body of \<^verbatim>\<open>execute_remove_chat_callback\<close>; the \<^verbatim>\<open>is_admin\<close> decorator that
  wraps it decides only whether the body runs.
\<close>

definition execute_remove_chat_callback :: "env \<Rightarrow> callback_query \<Rightarrow> store \<Rightarrow> store \<times> reply" where
  "execute_remove_chat_callback e query db =
     (let chat_db_id_str = last_field (data query)
      in if \<not> isdigit chat_db_id_str then (db, InvalidChatId)
         else
           (let chat_db_id = int_of_str chat_db_id_str in
            case delete_chat_by_id (session_begin (new_session db)) chat_db_id of
              (s1, Inl err) \<Rightarrow> (durable (rollback s1), ChatDatabaseError)
            | (s1, Inr success) \<Rightarrow>
                if success
                then (case commit s1 of
                        (s2, Some err) \<Rightarrow>
                          (durable s2,
                           if integrity_text_has_fk e then ChatStillReferenced
                           else ChatDatabaseError)
                      | (s2, None) \<Rightarrow> (durable s2, ChatRemoved chat_db_id))
                else (durable s1, ChatNotFoundForRemoval chat_db_id)))"

section \<open>Sample data\<close>

text \<open>
  Two users, an active and an inactive chat, and one subscription of the first user to the
  first chat in each status; the clock of \<open>env0\<close> is past the subscription's end.
\<close>

definition empty_db :: store where
  "empty_db = \<lparr>users = [], chats = [], subscriptions = []\<rparr>"

definition alice :: user where
  "alice = \<lparr>uid = 1, telegram_id = 555, username = None, first_name = None,
             last_name = None, user_is_active = True\<rparr>"

definition bob :: user where
  "bob = \<lparr>uid = 2, telegram_id = 777, username = None, first_name = None,
           last_name = None, user_is_active = True\<rparr>"

definition vip :: chat where
  "vip = \<lparr>cid = 1, telegram_chat_id = - 1001, title = ''VIP'', price_amount = 1000,
           price_currency = ''USD'', crypto_wallet_address = Some ''TWallet'',
           crypto_network = Some ''TRC20'', is_active = True\<rparr>"

definition archive :: chat where
  "archive = \<lparr>cid = 2, telegram_chat_id = - 1002, title = ''Old'', price_amount = 500,
               price_currency = ''USD'', crypto_wallet_address = None,
               crypto_network = None, is_active = False\<rparr>"

definition sub_with :: "string \<Rightarrow> subscription" where
  "sub_with st = \<lparr>sid = 1, user_id = 1, chat_id = 1, start_date = 0,
                   end_date = 2592000000000, status = st,
                   payment_id = Some ''PAYREF-00000000AA'', payment_details = None\<rparr>"

definition db_with :: "subscription list \<Rightarrow> store" where
  "db_with xs = \<lparr>users = [alice, bob], chats = [vip, archive], subscriptions = xs\<rparr>"

definition env0 :: env where
  "env0 = \<lparr>utcnow = 2592000000001, uuid4 = 0x0123456789abcdef0123456789abcdef,
            send_ok = (\<lambda>k. True), refresh_detached = None, integrity_text_has_fk = False\<rparr>"

definition query_of :: "int \<Rightarrow> string \<Rightarrow> callback_query" where
  "query_of tid d = \<lparr>from_user_id = tid, from_username = None, from_first_name = None,
                     from_last_name = None, data = d, has_message = True\<rparr>"

definition pending_row :: subscription where
  "pending_row = \<lparr>sid = 1, user_id = 1, chat_id = 2, start_date = 2592000000001,
                   end_date = 5184000000001, status = ''pending_payment'',
                   payment_id = Some ''PAYREF-0123456789'',
                   payment_details = Some [(''generated_wallet'', None), (''network'', None),
                                           (''reference'', Some ''PAYREF-0123456789'')]\<rparr>"

definition second_sub :: subscription where
  "second_sub = \<lparr>sid = 2, user_id = 1, chat_id = 1, start_date = 0,
                  end_date = 2592000000000, status = ''active'',
                  payment_id = Some ''PAYREF-00000000BB'', payment_details = None\<rparr>"

section \<open>Shared facts\<close>

lemmas session_defs = new_session_def session_begin_def rollback_def commit_def add_user_def
  add_chat_def add_subscription_def set_user_def set_chat_def set_subscription_def delete_chat_def

lemmas sample_defs = empty_db_def alice_def bob_def vip_def archive_def sub_with_def second_sub_def
  db_with_def env0_def query_of_def

lemmas parse_defs = last_field_def isdigit_def int_of_str_def

lemma durable_get_chat_by_id: "durable (fst (get_chat_by_id s i)) = durable s"
  by (simp add: get_chat_by_id_def split: sum.splits)

section \<open>Who commits\<close>

text \<open>
  C5, as stated: no repository operation changes the durable store. It fails for
  \<^verbatim>\<open>get_user_by_telegram_id\<close>: on first contact with Telegram id 555 on an empty
  database the operation commits the new user itself.
\<close>

theorem lookup_or_create_commits_counterexample:
  "durable (fst (get_user_by_telegram_id (new_session empty_db) 555)) \<noteq>
     durable (new_session empty_db)"
  by (simp add: get_user_by_telegram_id_def find_user_def scalar_one_or_none_def insert_user_def
      new_user_def next_id_def session_defs constraints_ok_def present_def empty_db_def Let_def)

text \<open>
  C5, amended: every repository operation other than lookup-or-create user leaves the
  durable store as it was (its writes are staged in the session only). Lookup-or-create
  user leaves it as it was when the lookup finds the user or fails; when the lookup
  finds none, the operation commits the session itself, and the durable store becomes the
  staged state with the new user row (when that state satisfies the constraints).
\<close>

theorem repository_commit_discipline:
  "durable (fst (create_subscription now s u c d st p pd)) = durable s \<and>
   durable (fst (update_subscription_status s i st)) = durable s \<and>
   durable (fst (create_chat s tc t pa pc w n a)) = durable s \<and>
   durable (fst (update_chat_details s i kw)) = durable s \<and>
   durable (fst (delete_chat_by_id s i)) = durable s \<and>
   durable (fst (get_chat_by_id s i)) = durable s \<and>
   durable (fst (get_all_managed_chats s)) = durable s \<and>
   durable (fst (get_subscription_by_id s i)) = durable s \<and>
   durable (fst (get_active_subscriptions now s tid)) = durable s \<and>
   durable (fst (get_subscriptions_ending_soon now s d)) = durable s \<and>
   durable (fst (get_expired_subscriptions now s)) = durable s \<and>
   (find_user s tid \<noteq> Inr None \<longrightarrow>
      durable (fst (get_user_by_telegram_id s tid)) = durable s) \<and>
   (find_user s tid = Inr None \<longrightarrow>
      constraints_ok (staged (add_user s (new_user (staged s) tid))) \<longrightarrow>
      durable (fst (get_user_by_telegram_id s tid)) =
        staged (add_user s (new_user (staged s) tid)))"
proof -
  have 1: "durable (fst (create_subscription now s u c d st p pd)) = durable s"
    by (simp add: create_subscription_def add_subscription_def Let_def)
  have 2: "durable (fst (update_subscription_status s i st)) = durable s"
    by (simp add: update_subscription_status_def set_subscription_def
        split: sum.splits option.splits)
  have 3: "durable (fst (create_chat s tc t pa pc w n a)) = durable s"
    by (simp add: create_chat_def set_chat_def add_chat_def Let_def
        split: sum.splits option.splits)
  have 4: "durable (fst (update_chat_details s i kw)) = durable s"
    using durable_get_chat_by_id [of s i]
    by (auto simp add: update_chat_details_def set_chat_def Let_def
        split: prod.splits sum.splits option.splits)
  have 5: "durable (fst (delete_chat_by_id s i)) = durable s"
    using durable_get_chat_by_id [of s i]
    by (auto simp add: delete_chat_by_id_def delete_chat_def
        split: prod.splits sum.splits option.splits)
  have 6: "durable (fst (get_subscription_by_id s i)) = durable s"
    by (simp add: get_subscription_by_id_def split: sum.splits option.splits)
  have 7: "find_user s tid \<noteq> Inr None \<longrightarrow>
      durable (fst (get_user_by_telegram_id s tid)) = durable s"
    by (simp add: get_user_by_telegram_id_def rollback_def split: sum.splits option.splits)
  have 8: "find_user s tid = Inr None \<longrightarrow>
      constraints_ok (staged (add_user s (new_user (staged s) tid))) \<longrightarrow>
      durable (fst (get_user_by_telegram_id s tid)) =
        staged (add_user s (new_user (staged s) tid))"
    by (simp add: get_user_by_telegram_id_def insert_user_def commit_def rollback_def Let_def)
  show ?thesis
    using 1 2 3 4 5 6 7 8
    by (simp add: durable_get_chat_by_id get_all_managed_chats_def get_active_subscriptions_def
        get_subscriptions_ending_soon_def get_expired_subscriptions_def Let_def)
qed

theorem repository_commit_discipline_witness:
  "find_user (new_session empty_db) 555 = Inr None \<and>
   constraints_ok (staged (add_user (new_session empty_db)
      (new_user (staged (new_session empty_db)) 555))) \<and>
   users (durable (fst (get_user_by_telegram_id (new_session empty_db) 555))) =
     [new_user empty_db 555] \<and>
   find_user (new_session (db_with [])) 555 \<noteq> Inr None \<and>
   durable (fst (get_user_by_telegram_id (new_session (db_with [])) 555)) = db_with []"
  using repository_commit_discipline [where s = "new_session empty_db" and tid = 555]
    repository_commit_discipline [where s = "new_session (db_with [])" and tid = 555]
  by (simp add: find_user_def scalar_one_or_none_def new_user_def next_id_def session_defs
      constraints_ok_def present_def sample_defs)

section \<open>The payment reference\<close>

lemma upper_hex_char: "d < 16 \<Longrightarrow> upper_char (hex_char d) \<in> set ''0123456789ABCDEF''"
proof -
  assume "d < 16"
  then have "d = 0 \<or> d = 1 \<or> d = 2 \<or> d = 3 \<or> d = 4 \<or> d = 5 \<or> d = 6 \<or> d = 7 \<or>
      d = 8 \<or> d = 9 \<or> d = 10 \<or> d = 11 \<or> d = 12 \<or> d = 13 \<or> d = 14 \<or> d = 15"
    by arith
  then show ?thesis
    by (auto simp add: upper_char_def hex_char_def)
qed

lemma nibble_bound: "unat ((w :: 128 word) AND 15) < 16"
proof -
  have "w AND 15 \<le> 15"
    by (rule word_and_le1)
  then show ?thesis
    by (simp add: word_le_nat_alt)
qed

lemma length_uuid_hex: "length (uuid_hex u) = 32"
  by (simp add: uuid_hex_def)

lemma payment_reference_format:
  "\<exists>h. payment_reference_of u = ''PAYREF-'' @ h \<and> length h = 10 \<and>
        set h \<subseteq> set ''0123456789ABCDEF''"
proof -
  let ?h = "map upper_char (take 10 (uuid_hex u))"
  have "set (take 10 (uuid_hex u)) \<subseteq> set (uuid_hex u)"
    by (rule set_take_subset)
  moreover have "\<forall>c \<in> set (uuid_hex u). upper_char c \<in> set ''0123456789ABCDEF''"
    unfolding uuid_hex_def using upper_hex_char [OF nibble_bound] by auto
  ultimately have "set ?h \<subseteq> set ''0123456789ABCDEF''"
    by auto
  moreover have "length ?h = 10"
    by (simp add: length_uuid_hex)
  ultimately show ?thesis
    unfolding payment_reference_of_def by blast
qed

lemma get_user_keeps_tables:
  assumes "get_user_by_telegram_id s tid = (s', r)"
    and "subscriptions (staged s) = subscriptions (durable s)"
    and "chats (staged s) = chats (durable s)"
  shows "subscriptions (staged s') = subscriptions (durable s) \<and>
         subscriptions (durable s') = subscriptions (durable s) \<and>
         chats (staged s') = chats (durable s) \<and>
         chats (durable s') = chats (durable s)"
  using assms
  by (auto simp add: get_user_by_telegram_id_def insert_user_def commit_def rollback_def
      add_user_def Let_def split: sum.splits option.splits if_splits)

lemma get_chat_by_id_Some:
  "get_chat_by_id s i = (s', Inr (Some c)) \<Longrightarrow>
     s' = s \<and> filter (\<lambda>c. cid c = i) (chats (staged s)) = [c]"
  by (auto simp add: get_chat_by_id_def scalar_one_or_none_def split: sum.splits list.splits)

lemma get_chat_by_id_found:
  "filter (\<lambda>c. cid c = i) (chats (staged s)) = [c] \<Longrightarrow> get_chat_by_id s i = (s, Inr (Some c))"
  by (simp add: get_chat_by_id_def scalar_one_or_none_def)

lemma filter_single_mem: "filter P xs = [c] \<Longrightarrow> c \<in> set xs \<and> P c"
proof -
  assume f: "filter P xs = [c]"
  have "c \<in> set (filter P xs)"
    by (simp add: f)
  then show ?thesis
    by auto
qed

text \<open>What \<^verbatim>\<open>select_chat_callback\<close> can add to the subscriptions table: nothing, or the
  one pending subscription it built for the chat it found.\<close>

lemma select_chat_new_rows:
  assumes "select_chat_callback e query db = (db', r)"
  shows "subscriptions db' = subscriptions db \<or>
         (\<exists>c u i. isdigit (last_field (data query)) \<and>
            filter (\<lambda>c. cid c = int_of_str (last_field (data query))) (chats db) = [c] \<and>
            subscriptions db' = subscriptions db @
              [\<lparr>sid = i, user_id = u, chat_id = cid c,
                start_date = utcnow e, end_date = utcnow e + timedelta_days 30,
                status = ''pending_payment'',
                payment_id = Some (payment_reference_of (uuid4 e)),
                payment_details = Some [(''generated_wallet'', crypto_wallet_address c),
                                        (''network'', crypto_network c),
                                        (''reference'', Some (payment_reference_of (uuid4 e)))]\<rparr>])"
proof (cases "isdigit (last_field (data query)) \<and> int_of_str (last_field (data query)) \<le> 2147483647")
  case False
  with assms show ?thesis
    by (auto simp add: select_chat_callback_def bind_integer_def Let_def split: if_splits)
next
  case True
  let ?n = "int_of_str (last_field (data query))"
  let ?s0 = "session_begin (new_session db)"
  have b: "bind_integer ?n = Inr ?n"
    using True by (simp add: bind_integer_def)
  obtain s1 r1 where g: "get_chat_by_id ?s0 ?n = (s1, r1)"
    by (cases "get_chat_by_id ?s0 ?n")
  have s1: "s1 = ?s0"
    using g by (auto simp add: get_chat_by_id_def split: sum.splits)
  have s0: "durable ?s0 = db" "staged ?s0 = db"
    by (simp_all add: session_begin_def new_session_def)
  show ?thesis
  proof (cases r1)
    case (Inl err)
    with assms True b g s1 s0 show ?thesis
      by (simp add: select_chat_callback_def Let_def rollback_def)
  next
    case (Inr oc)
    show ?thesis
    proof (cases oc)
      case None
      with assms True b g s1 s0 Inr show ?thesis
        by (simp add: select_chat_callback_def Let_def)
    next
      case (Some c)
      have c: "filter (\<lambda>c. cid c = ?n) (chats db) = [c]"
        using get_chat_by_id_Some [of ?s0 ?n s1 c] g Inr Some s0 by simp
      obtain s2 r2 where u: "get_user_by_telegram_id s1 (from_user_id query) = (s2, r2)"
        by (cases "get_user_by_telegram_id s1 (from_user_id query)")
      have keep: "subscriptions (staged s2) = subscriptions db"
        "subscriptions (durable s2) = subscriptions db"
        using get_user_keeps_tables [OF u] s1 s0 by simp_all
      show ?thesis
      proof (cases r2)
        case (Inl err)
        with assms True b g Inr Some u keep show ?thesis
          by (simp add: select_chat_callback_def Let_def rollback_def)
      next
        case (Inr u0)
        from assms True b g \<open>r1 = Inr oc\<close> Some u Inr keep c show ?thesis
          by (auto simp add: select_chat_callback_def Let_def create_subscription_def
              add_subscription_def add_user_def set_user_def commit_def rollback_def
              split: if_splits option.splits)
      qed
    qed
  qed
qed

text \<open>
  C10: every subscription that the chat-selection flow adds to the database carries a
  payment\_id made of \<^verbatim>\<open>PAYREF-\<close> and exactly ten upper-case hexadecimal characters,
  and payment\_details holding the wallet address and the network label of the selected
  chat and that same reference.
\<close>

theorem select_chat_payment_reference:
  assumes "select_chat_callback e query db = (db', r)"
    and "x \<in> set (subscriptions db')"
    and "x \<notin> set (subscriptions db)"
  shows "\<exists>c h. get_chat_by_id (new_session db) (int_of_str (last_field (data query))) =
                 (new_session db, Inr (Some c)) \<and>
               length h = 10 \<and> set h \<subseteq> set ''0123456789ABCDEF'' \<and>
               payment_id x = Some (''PAYREF-'' @ h) \<and>
               payment_details x =
                 Some [(''generated_wallet'', crypto_wallet_address c),
                       (''network'', crypto_network c),
                       (''reference'', Some (''PAYREF-'' @ h))]"
proof -
  obtain h where h: "payment_reference_of (uuid4 e) = ''PAYREF-'' @ h" "length h = 10"
    "set h \<subseteq> set ''0123456789ABCDEF''"
    using payment_reference_format by blast
  from select_chat_new_rows [OF assms(1)] assms(2,3)
  obtain c u i where f: "filter (\<lambda>c. cid c = int_of_str (last_field (data query))) (chats db) = [c]"
    and x: "x = \<lparr>sid = i, user_id = u, chat_id = cid c,
                start_date = utcnow e, end_date = utcnow e + timedelta_days 30,
                status = ''pending_payment'',
                payment_id = Some (payment_reference_of (uuid4 e)),
                payment_details = Some [(''generated_wallet'', crypto_wallet_address c),
                                        (''network'', crypto_network c),
                                        (''reference'', Some (payment_reference_of (uuid4 e)))]\<rparr>"
    by auto
  have c: "get_chat_by_id (new_session db) (int_of_str (last_field (data query))) =
      (new_session db, Inr (Some c))"
    by (rule get_chat_by_id_found) (simp add: new_session_def f)
  show ?thesis
    using c h x by auto
qed

lemma sample_reference: "payment_reference_of (uuid4 env0) = ''PAYREF-0123456789''"
  by (simp add: env0_def payment_reference_of_def uuid_hex_def hex_char_def upper_char_def
      upt_rec [of _ "numeral _"] upt_rec [of 0])

lemma select_sample:
  "select_chat_callback env0 (query_of 555 ''select_chat_2'') (db_with []) =
     (db_with [pending_row], PaymentInfo archive 30 ''PAYREF-0123456789'' 1)"
  by (simp add: select_chat_callback_def sample_reference parse_defs db_with_def alice_def bob_def vip_def archive_def query_of_def
      pending_row_def session_defs
      get_chat_by_id_def scalar_one_or_none_def get_user_by_telegram_id_def find_user_def
      touch_up_def create_subscription_def next_id_def constraints_ok_def present_def
      timedelta_days_def bind_integer_def Let_def) (simp add: env0_def)

theorem select_chat_payment_reference_witness:
  "select_chat_callback env0 (query_of 555 ''select_chat_2'') (db_with []) =
     (db_with [pending_row], PaymentInfo archive 30 ''PAYREF-0123456789'' 1) \<and>
   pending_row \<in> set (subscriptions (db_with [pending_row])) \<and>
   pending_row \<notin> set (subscriptions (db_with [])) \<and>
   (\<exists>c h. get_chat_by_id (new_session (db_with []))
             (int_of_str (last_field (data (query_of 555 ''select_chat_2'')))) =
               (new_session (db_with []), Inr (Some c)) \<and>
          length h = 10 \<and> set h \<subseteq> set ''0123456789ABCDEF'' \<and>
          payment_id pending_row = Some (''PAYREF-'' @ h) \<and>
          payment_details pending_row =
            Some [(''generated_wallet'', crypto_wallet_address c),
                  (''network'', crypto_network c),
                  (''reference'', Some (''PAYREF-'' @ h))])"
proof -
  have a: "pending_row \<in> set (subscriptions (db_with [pending_row]))"
    by (simp add: db_with_def)
  have b: "pending_row \<notin> set (subscriptions (db_with []))"
    by (simp add: db_with_def)
  show ?thesis
    using select_chat_payment_reference [OF select_sample a b] select_sample a b
    by simp
qed

section \<open>Chat selection and the active flag\<close>

text \<open>
  C7, as stated: a pending subscription is created only if the chat exists and is active.
  It fails: user 555 selects chat 2, which exists and is inactive, and the database gets
  a subscription to it with status \<^verbatim>\<open>pending_payment\<close>.
\<close>

theorem select_inactive_chat_counterexample:
  "chats (db_with []) = [vip, archive] \<and> cid archive = 2 \<and> is_active archive = False \<and>
   subscriptions (db_with []) = [] \<and>
   subscriptions (fst (select_chat_callback env0 (query_of 555 ''select_chat_2'') (db_with []))) =
     [pending_row] \<and>
   chat_id pending_row = 2 \<and> status pending_row = ''pending_payment''"
  by (simp add: select_sample) (simp add: db_with_def archive_def pending_row_def)

text \<open>
  Two runs that end without a subscription: a user the database does not know yet (the
  user row is committed by the lookup, whose refresh then raises inside the handler's
  transaction block), and a chat id beyond the range of the id column.
\<close>

lemma select_first_contact_sample:
  "select_chat_callback env0 (query_of 999 ''select_chat_1'') (db_with []) =
     ((db_with [])\<lparr>users := [alice, bob, new_user (db_with []) 999]\<rparr>, SelectionDatabaseError)"
  by (simp add: select_chat_callback_def parse_defs db_with_def alice_def bob_def vip_def
      archive_def query_of_def session_defs get_chat_by_id_def scalar_one_or_none_def
      get_user_by_telegram_id_def find_user_def insert_user_def new_user_def next_id_def
      constraints_ok_def present_def bind_integer_def Let_def)

lemma select_out_of_range_sample:
  "select_chat_callback env0 (query_of 555 ''select_chat_99999999999999999999'') (db_with []) =
     (db_with [], SelectionDatabaseError)"
  by (simp add: select_chat_callback_def parse_defs query_of_def bind_integer_def Let_def)

text \<open>
  C7, amended: a chat-selection request creates a subscription only if the referenced
  chat exists; the chat's active flag is not consulted. When the callback data names no
  number or no chat has that id, the database is left as it was; every subscription the
  request adds has status \<^verbatim>\<open>pending_payment\<close> and refers to the chat of the
  database that the request names.
\<close>

theorem select_chat_requires_existing_chat:
  "(\<not> isdigit (last_field (data query)) \<longrightarrow> fst (select_chat_callback e query db) = db) \<and>
   (filter (\<lambda>c. cid c = int_of_str (last_field (data query))) (chats db) = [] \<longrightarrow>
      fst (select_chat_callback e query db) = db) \<and>
   (\<forall>x. x \<in> set (subscriptions (fst (select_chat_callback e query db))) \<longrightarrow>
        x \<notin> set (subscriptions db) \<longrightarrow>
        status x = ''pending_payment'' \<and> isdigit (last_field (data query)) \<and>
        chat_id x = int_of_str (last_field (data query)) \<and>
        chat_id x \<in> set (map cid (chats db)))"
proof -
  have a: "\<not> isdigit (last_field (data query)) \<longrightarrow> fst (select_chat_callback e query db) = db"
    by (simp add: select_chat_callback_def Let_def)
  have b: "filter (\<lambda>c. cid c = int_of_str (last_field (data query))) (chats db) = [] \<longrightarrow>
      fst (select_chat_callback e query db) = db"
    by (simp add: select_chat_callback_def Let_def get_chat_by_id_def new_session_def
        session_begin_def scalar_one_or_none_def bind_integer_def)
  have c: "status x = ''pending_payment'' \<and> isdigit (last_field (data query)) \<and>
        chat_id x = int_of_str (last_field (data query)) \<and>
        chat_id x \<in> set (map cid (chats db))"
    if x: "x \<in> set (subscriptions (fst (select_chat_callback e query db)))"
      "x \<notin> set (subscriptions db)" for x
  proof -
    obtain db' r where run: "select_chat_callback e query db = (db', r)"
      by (cases "select_chat_callback e query db")
    from select_chat_new_rows [OF run] x run
    obtain c u i where d: "isdigit (last_field (data query))"
      and c: "filter (\<lambda>c. cid c = int_of_str (last_field (data query))) (chats db) = [c]"
      and n: "status x = ''pending_payment''" "chat_id x = cid c"
      by auto
    from filter_single_mem [OF c]
    have m: "c \<in> set (chats db)" and k: "cid c = int_of_str (last_field (data query))"
      by simp_all
    from m have "cid c \<in> set (map cid (chats db))"
      by simp
    with d n k show ?thesis
      by simp
  qed
  show ?thesis
    using a b c by blast
qed

theorem select_chat_requires_existing_chat_witness:
  "\<not> isdigit (last_field (data (query_of 555 ''select_chat_x''))) \<and>
   fst (select_chat_callback env0 (query_of 555 ''select_chat_x'') (db_with [])) = db_with [] \<and>
   filter (\<lambda>c. cid c = int_of_str (last_field (data (query_of 555 ''select_chat_9''))))
     (chats (db_with [])) = [] \<and>
   fst (select_chat_callback env0 (query_of 555 ''select_chat_9'') (db_with [])) = db_with [] \<and>
   pending_row \<in> set (subscriptions
     (fst (select_chat_callback env0 (query_of 555 ''select_chat_2'') (db_with [])))) \<and>
   pending_row \<notin> set (subscriptions (db_with [])) \<and>
   status pending_row = ''pending_payment'' \<and>
   chat_id pending_row \<in> set (map cid (chats (db_with [])))"
proof -
  have a: "\<not> isdigit (last_field (data (query_of 555 ''select_chat_x'')))"
    by (simp add: parse_defs query_of_def)
  have c: "filter (\<lambda>c. cid c = int_of_str (last_field (data (query_of 555 ''select_chat_9''))))
     (chats (db_with [])) = []"
    by (simp add: parse_defs query_of_def db_with_def vip_def archive_def)
  have d: "pending_row \<in> set (subscriptions
     (fst (select_chat_callback env0 (query_of 555 ''select_chat_2'') (db_with []))))"
    by (simp add: select_sample) (simp add: db_with_def)
  have f: "pending_row \<notin> set (subscriptions (db_with []))"
    by (simp add: db_with_def)
  show ?thesis
    using a c d f
      select_chat_requires_existing_chat [of "query_of 555 ''select_chat_x''" env0 "db_with []"]
      select_chat_requires_existing_chat [of "query_of 555 ''select_chat_9''" env0 "db_with []"]
      select_chat_requires_existing_chat [of "query_of 555 ''select_chat_2''" env0 "db_with []"]
    by blast
qed

section \<open>Lookup-or-create of a user\<close>











section \<open>Removing a chat that subscriptions refer to\<close>

lemma commit_blocked_by_reference:
  assumes "x \<in> set (subscriptions (staged s))" and "chat_id x = cid c"
    and "durable s = staged s"
  shows "commit (delete_chat s c) = (s, Some IntegrityError)"
proof -
  let ?left = "filter (\<lambda>d. cid d \<noteq> cid c) (chats (staged s))"
  have "chat_id x \<notin> set (map cid ?left)"
    using assms(2) by auto
  with assms(1) have "\<not> list_all (\<lambda>x. user_id x \<in> set (map uid (users (staged s))) \<and>
      chat_id x \<in> set (map cid ?left)) (subscriptions (staged s))"
    by (auto simp add: list_all_iff)
  then have "\<not> constraints_ok ((staged s)\<lparr>chats := ?left\<rparr>)"
    by (simp add: constraints_ok_def)
  then show ?thesis
    by (simp add: commit_def delete_chat_def rollback_def assms(3))
qed

text \<open>
  C9, as stated: deleting a chat that a subscription refers to fails with a
  distinguishable referential-integrity error. It fails for the repository operation:
  \<^verbatim>\<open>delete_chat_by_id\<close> on chat 1, which the sample subscription refers to, raises
  nothing and returns True; the failure comes at the caller's commit, and the handler
  then shows the text it shows for any database error.
\<close>

theorem delete_referenced_chat_counterexample:
  "chat_id (sub_with ''active'') = cid vip \<and>
   snd (delete_chat_by_id (new_session (db_with [sub_with ''active''])) 1) = Inr True \<and>
   snd (execute_remove_chat_callback env0 (query_of 999 ''admin_execute_remove_chat_1'')
          (db_with [sub_with ''active''])) = ChatDatabaseError"
  by (simp add: delete_chat_by_id_def execute_remove_chat_callback_def get_chat_by_id_def
      scalar_one_or_none_def parse_defs sample_defs session_defs constraints_ok_def
      present_def Let_def)

text \<open>
  C9, amended: for a chat that at least one subscription refers to, the repository
  operation only stages the deletion and returns True, leaving the durable store as it
  was; the referential block comes at the caller's commit, which raises the store's
  IntegrityError. The remove handler then leaves the database unchanged (the chat row
  stays) and never reports a removal: it says the chat is still referenced when the
  error text mentions a foreign key constraint, and shows its general database error
  message otherwise.
\<close>

theorem delete_referenced_chat_blocked:
  assumes "isdigit (last_field (data query))"
    and "filter (\<lambda>d. cid d = int_of_str (last_field (data query))) (chats db) = [c]"
    and "x \<in> set (subscriptions db)"
    and "chat_id x = cid c"
  shows "delete_chat_by_id (new_session db) (cid c) = (delete_chat (new_session db) c, Inr True) \<and>
         durable (delete_chat (new_session db) c) = db \<and>
         commit (delete_chat (new_session db) c) = (new_session db, Some IntegrityError) \<and>
         execute_remove_chat_callback e query db =
           (db, if integrity_text_has_fk e then ChatStillReferenced else ChatDatabaseError) \<and>
         c \<in> set (chats (fst (execute_remove_chat_callback e query db)))"
proof -
  let ?n = "int_of_str (last_field (data query))"
  have "c \<in> set (filter (\<lambda>d. cid d = ?n) (chats db))"
    by (simp add: assms(2))
  then have c: "c \<in> set (chats db)" and n: "cid c = ?n"
    by auto
  let ?s0 = "session_begin (new_session db)"
  have g: "get_chat_by_id (new_session db) ?n = (new_session db, Inr (Some c))"
    using assms(2) by (simp add: get_chat_by_id_def new_session_def scalar_one_or_none_def)
  then have 1: "delete_chat_by_id (new_session db) ?n = (delete_chat (new_session db) c, Inr True)"
    by (simp add: delete_chat_by_id_def)
  have 2: "durable (delete_chat (new_session db) c) = db"
    by (simp add: delete_chat_def new_session_def)
  have 3: "commit (delete_chat (new_session db) c) = (new_session db, Some IntegrityError)"
    by (rule commit_blocked_by_reference [OF _ assms(4)]) (simp_all add: new_session_def assms(3))
  have "get_chat_by_id ?s0 ?n = (?s0, Inr (Some c))"
    using assms(2)
    by (simp add: get_chat_by_id_def new_session_def session_begin_def scalar_one_or_none_def)
  then have d: "delete_chat_by_id ?s0 ?n = (delete_chat ?s0 c, Inr True)"
    by (simp add: delete_chat_by_id_def)
  have k: "commit (delete_chat ?s0 c) = (?s0, Some IntegrityError)"
    by (rule commit_blocked_by_reference [OF _ assms(4)])
      (simp_all add: new_session_def session_begin_def assms(3))
  have 4: "execute_remove_chat_callback e query db =
           (db, if integrity_text_has_fk e then ChatStillReferenced else ChatDatabaseError)"
    using assms(1)
    by (simp add: execute_remove_chat_callback_def Let_def d k)
      (simp add: new_session_def session_begin_def)
  from 1 2 3 4 c n show ?thesis
    by simp
qed

theorem delete_referenced_chat_blocked_witness:
  "isdigit (last_field (data (query_of 999 ''admin_execute_remove_chat_1''))) \<and>
   filter (\<lambda>d. cid d = int_of_str (last_field (data (query_of 999 ''admin_execute_remove_chat_1''))))
     (chats (db_with [sub_with ''active''])) = [vip] \<and>
   sub_with ''active'' \<in> set (subscriptions (db_with [sub_with ''active''])) \<and>
   chat_id (sub_with ''active'') = cid vip \<and>
   execute_remove_chat_callback env0 (query_of 999 ''admin_execute_remove_chat_1'')
     (db_with [sub_with ''active'']) = (db_with [sub_with ''active''], ChatDatabaseError) \<and>
   vip \<in> set (chats (fst (execute_remove_chat_callback env0
     (query_of 999 ''admin_execute_remove_chat_1'') (db_with [sub_with ''active'']))))"
proof -
  have a: "isdigit (last_field (data (query_of 999 ''admin_execute_remove_chat_1'')))"
    by (simp add: parse_defs query_of_def)
  have b: "filter (\<lambda>d. cid d = int_of_str (last_field (data (query_of 999 ''admin_execute_remove_chat_1''))))
     (chats (db_with [sub_with ''active''])) = [vip]"
    by (simp add: parse_defs query_of_def db_with_def vip_def archive_def)
  have c: "sub_with ''active'' \<in> set (subscriptions (db_with [sub_with ''active'']))"
    by (simp add: db_with_def)
  have d: "chat_id (sub_with ''active'') = cid vip"
    by (simp add: sub_with_def vip_def)
  have f: "integrity_text_has_fk env0 = False"
    by (simp add: env0_def)
  show ?thesis
    using a b c d delete_referenced_chat_blocked [OF a b c d, of env0, unfolded f if_False]
    by blast
qed

section \<open>The expiry sweep\<close>

lemma distinct_key_mem:
  "distinct (map f xs) \<Longrightarrow> x \<in> set xs \<Longrightarrow> filter (\<lambda>y. f y = f x) xs = [x]"
proof (induction xs)
  case Nil
  then show ?case by simp
next
  case (Cons a xs)
  show ?case
  proof (cases "a = x")
    case True
    with Cons.prems have "\<forall>y \<in> set xs. f y \<noteq> f x"
      by (auto simp add: image_iff)
    then have "filter (\<lambda>y. f y = f x) xs = []"
      by (simp add: filter_empty_conv)
    with True show ?thesis
      by simp
  next
    case False
    with Cons.prems have "x \<in> set xs" and "f a \<noteq> f x"
      by (auto simp add: image_iff)
    with Cons show ?thesis
      by simp
  qed
qed

lemma update_status_found:
  assumes "distinct (map sid (subscriptions (staged s)))"
    and "x \<in> set (subscriptions (staged s))"
  shows "update_subscription_status s (sid x) st =
           (set_subscription s (x\<lparr>status := st\<rparr>), Inr (Some (x\<lparr>status := st\<rparr>)))"
  using distinct_key_mem [OF assms]
  by (simp add: update_subscription_status_def scalar_one_or_none_def)

lemma notify_expired_events:
  "\<exists>n' evs. notify_expired ok n u c = (n', evs) \<and>
     (evs = [Sent (telegram_id u) (expired_text c), Sent (telegram_id u) (removed_text c)] \<or>
      evs = [Sent (telegram_id u) (expired_text c), SendFailed (telegram_id u) (removed_text c)] \<or>
      evs = [SendFailed (telegram_id u) (expired_text c)])"
  by (simp add: notify_expired_def)

text \<open>
  The loop of the sweep, run on rows of the session's view that have their user and chat
  loaded: it stages \<^verbatim>\<open>expired\<close> on exactly these rows, raises nothing, and adds to the
  log one block for each row, in the order of the rows: the row's flip, then the attempt
  to send that row's user the expiry message of that row's chat and, when that succeeded,
  the attempt to send the second message.
\<close>

lemma expire_each_run:
  assumes "distinct (map sid (subscriptions (staged s)))"
    and "set xs \<subseteq> set (subscriptions (staged s))"
    and "distinct (map sid xs)"
    and "\<forall>x \<in> set xs. \<exists>u c. ru x = Some u \<and> rc x = Some c"
  shows "\<exists>blocks. expire_each ok (map (\<lambda>x. (x, ru x, rc x)) xs) s n log =
           (s\<lparr>staged := (staged s)\<lparr>subscriptions :=
                map (\<lambda>y. if sid y \<in> sid ` set xs then y\<lparr>status := ''expired''\<rparr> else y)
                  (subscriptions (staged s))\<rparr>\<rparr>,
            log @ concat blocks, None) \<and>
         list_all2 (\<lambda>x b. \<exists>u c. ru x = Some u \<and> rc x = Some c \<and>
           (b = [Flipped (sid x), Sent (telegram_id u) (expired_text c),
                 Sent (telegram_id u) (removed_text c)] \<or>
            b = [Flipped (sid x), Sent (telegram_id u) (expired_text c),
                 SendFailed (telegram_id u) (removed_text c)] \<or>
            b = [Flipped (sid x), SendFailed (telegram_id u) (expired_text c)])) xs blocks"
  using assms
proof (induction xs arbitrary: s n log)
  case Nil
  then show ?case
    by simp
next
  case (Cons x xs)
  let ?subs = "subscriptions (staged s)"
  let ?x' = "x\<lparr>status := ''expired''\<rparr>"
  let ?s' = "set_subscription s ?x'"
  obtain u c where uc: "ru x = Some u" "rc x = Some c"
    using Cons.prems(4) by auto
  have xin: "x \<in> set ?subs"
    using Cons.prems(2) by simp
  have upd: "update_subscription_status s (sid x) ''expired'' = (?s', Inr (Some ?x'))"
    by (rule update_status_found [OF Cons.prems(1) xin])
  obtain n' evs1 where nt: "notify_expired ok n u c = (n', evs1)"
    and evs1: "evs1 = [Sent (telegram_id u) (expired_text c), Sent (telegram_id u) (removed_text c)] \<or>
      evs1 = [Sent (telegram_id u) (expired_text c), SendFailed (telegram_id u) (removed_text c)] \<or>
      evs1 = [SendFailed (telegram_id u) (expired_text c)]"
    using notify_expired_events [of ok n u c] by blast
  have same: "\<forall>y \<in> set ?subs. sid y = sid x \<longrightarrow> y = x"
  proof
    fix y assume "y \<in> set ?subs"
    show "sid y = sid x \<longrightarrow> y = x"
    proof
      assume "sid y = sid x"
      then have "y \<in> set (filter (\<lambda>y. sid y = sid x) ?subs)"
        using \<open>y \<in> set ?subs\<close> by simp
      then show "y = x"
        by (simp add: distinct_key_mem [OF Cons.prems(1) xin])
    qed
  qed
  have subs': "subscriptions (staged ?s') = map (\<lambda>y. if sid y = sid x then ?x' else y) ?subs"
    by (simp add: set_subscription_def)
  have sids: "map sid (subscriptions (staged ?s')) = map sid ?subs"
    by (simp add: subs' comp_def cong: map_cong)
  have p1: "distinct (map sid (subscriptions (staged ?s')))"
    using Cons.prems(1) by (simp only: sids)
  have notx: "\<forall>y \<in> set xs. sid y \<noteq> sid x"
    using Cons.prems(3) by (auto simp add: image_iff)
  have p2: "set xs \<subseteq> set (subscriptions (staged ?s'))"
  proof
    fix y assume y: "y \<in> set xs"
    then have "y \<in> set ?subs" and "sid y \<noteq> sid x"
      using Cons.prems(2) notx by auto
    then show "y \<in> set (subscriptions (staged ?s'))"
      by (force simp add: subs')
  qed
  have p3: "distinct (map sid xs)"
    using Cons.prems(3) by simp
  have p4: "\<forall>x \<in> set xs. \<exists>u c. ru x = Some u \<and> rc x = Some c"
    using Cons.prems(4) by simp
  from Cons.IH [OF p1 p2 p3 p4, of n' "log @ Flipped (sid x) # evs1"]
  obtain blocks where run: "expire_each ok (map (\<lambda>x. (x, ru x, rc x)) xs) ?s' n'
        (log @ Flipped (sid x) # evs1) =
           (?s'\<lparr>staged := (staged ?s')\<lparr>subscriptions :=
                map (\<lambda>y. if sid y \<in> sid ` set xs then y\<lparr>status := ''expired''\<rparr> else y)
                  (subscriptions (staged ?s'))\<rparr>\<rparr>,
            (log @ Flipped (sid x) # evs1) @ concat blocks, None)"
    and blocks: "list_all2 (\<lambda>x b. \<exists>u c. ru x = Some u \<and> rc x = Some c \<and>
           (b = [Flipped (sid x), Sent (telegram_id u) (expired_text c),
                 Sent (telegram_id u) (removed_text c)] \<or>
            b = [Flipped (sid x), Sent (telegram_id u) (expired_text c),
                 SendFailed (telegram_id u) (removed_text c)] \<or>
            b = [Flipped (sid x), SendFailed (telegram_id u) (expired_text c)])) xs blocks"
    by blast
  have rows: "map (\<lambda>y. if sid y \<in> sid ` set xs then y\<lparr>status := ''expired''\<rparr> else y)
                  (subscriptions (staged ?s')) =
              map (\<lambda>y. if sid y \<in> sid ` set (x # xs) then y\<lparr>status := ''expired''\<rparr> else y) ?subs"
    unfolding subs' map_map
  proof (rule map_cong [OF refl])
    fix y assume y: "y \<in> set ?subs"
    show "((\<lambda>y. if sid y \<in> sid ` set xs then y\<lparr>status := ''expired''\<rparr> else y) \<circ>
           (\<lambda>y. if sid y = sid x then ?x' else y)) y =
          (if sid y \<in> sid ` set (x # xs) then y\<lparr>status := ''expired''\<rparr> else y)"
    proof (cases "sid y = sid x")
      case True
      then have "y = x"
        using same y by simp
      moreover have "sid x \<notin> sid ` set xs"
        using notx by (auto simp add: image_iff)
      ultimately show ?thesis
        by simp
    next
      case False
      then show ?thesis
        by simp
    qed
  qed
  have final: "?s'\<lparr>staged := (staged ?s')\<lparr>subscriptions :=
                map (\<lambda>y. if sid y \<in> sid ` set xs then y\<lparr>status := ''expired''\<rparr> else y)
                  (subscriptions (staged ?s'))\<rparr>\<rparr> =
               s\<lparr>staged := (staged s)\<lparr>subscriptions :=
                map (\<lambda>y. if sid y \<in> sid ` set (x # xs) then y\<lparr>status := ''expired''\<rparr> else y)
                  ?subs\<rparr>\<rparr>"
    unfolding rows by (simp add: set_subscription_def)
  have step: "expire_each ok (map (\<lambda>x. (x, ru x, rc x)) (x # xs)) s n log =
      expire_each ok (map (\<lambda>x. (x, ru x, rc x)) xs) ?s' n' (log @ Flipped (sid x) # evs1)"
    by (simp add: uc upd nt)
  have 1: "expire_each ok (map (\<lambda>x. (x, ru x, rc x)) (x # xs)) s n log =
           (s\<lparr>staged := (staged s)\<lparr>subscriptions :=
                map (\<lambda>y. if sid y \<in> sid ` set (x # xs) then y\<lparr>status := ''expired''\<rparr> else y)
                  ?subs\<rparr>\<rparr>,
            log @ concat ((Flipped (sid x) # evs1) # blocks), None)"
    unfolding step run final by simp
  have "\<exists>u c. ru x = Some u \<and> rc x = Some c \<and>
      (Flipped (sid x) # evs1 = [Flipped (sid x), Sent (telegram_id u) (expired_text c),
                 Sent (telegram_id u) (removed_text c)] \<or>
       Flipped (sid x) # evs1 = [Flipped (sid x), Sent (telegram_id u) (expired_text c),
                 SendFailed (telegram_id u) (removed_text c)] \<or>
       Flipped (sid x) # evs1 = [Flipped (sid x), SendFailed (telegram_id u) (expired_text c)])"
    using uc evs1 by simp
  with blocks have 2: "list_all2 (\<lambda>x b. \<exists>u c. ru x = Some u \<and> rc x = Some c \<and>
           (b = [Flipped (sid x), Sent (telegram_id u) (expired_text c),
                 Sent (telegram_id u) (removed_text c)] \<or>
            b = [Flipped (sid x), Sent (telegram_id u) (expired_text c),
                 SendFailed (telegram_id u) (removed_text c)] \<or>
            b = [Flipped (sid x), SendFailed (telegram_id u) (expired_text c)])) (x # xs) ((Flipped (sid x) # evs1) # blocks)"
    by simp
  from 1 2 show ?case
    by blast
qed

lemma constraints_same_keys:
  assumes "constraints_ok db"
    and "\<forall>y. sid (g y) = sid y \<and> user_id (g y) = user_id y \<and> chat_id (g y) = chat_id y \<and>
             payment_id (g y) = payment_id y"
  shows "constraints_ok (db\<lparr>subscriptions := map g (subscriptions db)\<rparr>)"
proof -
  have "sid \<circ> g = sid" "payment_id \<circ> g = payment_id"
    using assms(2) by (simp_all add: fun_eq_iff)
  then show ?thesis
    using assms by (simp add: constraints_ok_def list_all_iff)
qed

lemma relations_loaded:
  assumes "constraints_ok db" and "x \<in> set (subscriptions db)"
  shows "\<exists>u c. rel_user db x = Some u \<and> rel_chat db x = Some c"
proof -
  from assms have "user_id x \<in> set (map uid (users db))" "chat_id x \<in> set (map cid (chats db))"
    by (simp_all add: constraints_ok_def list_all_iff)
  then have "find (\<lambda>u. uid u = user_id x) (users db) \<noteq> None"
    "find (\<lambda>c. cid c = chat_id x) (chats db) \<noteq> None"
    by (auto simp add: find_None_iff)
  then show ?thesis
    by (auto simp add: rel_user_def rel_chat_def)
qed

text \<open>
  One run of the sweep on a database that satisfies its constraints: the rows that are
  active and due become expired and nothing else changes; the log is the opening, then
  one block for each due row (its flip, then its notification attempts), then the one
  commit.
\<close>

lemma sweep_run:
  assumes "constraints_ok db"
  shows "\<exists>blocks. process_expired_subscriptions e db =
           (db\<lparr>subscriptions :=
                map (\<lambda>y. if status y = ''active'' \<and> end_date y \<le> utcnow e
                          then y\<lparr>status := ''expired''\<rparr> else y) (subscriptions db)\<rparr>,
            Begin # concat blocks @ [Commit]) \<and>
         list_all2 (\<lambda>x b. \<exists>u c. rel_user db x = Some u \<and> rel_chat db x = Some c \<and>
           (b = [Flipped (sid x), Sent (telegram_id u) (expired_text c),
                 Sent (telegram_id u) (removed_text c)] \<or>
            b = [Flipped (sid x), Sent (telegram_id u) (expired_text c),
                 SendFailed (telegram_id u) (removed_text c)] \<or>
            b = [Flipped (sid x), SendFailed (telegram_id u) (expired_text c)]))
           (filter (\<lambda>y. status y = ''active'' \<and> end_date y \<le> utcnow e) (subscriptions db))
           blocks"
proof -
  let ?due = "\<lambda>y. status y = ''active'' \<and> end_date y \<le> utcnow e"
  let ?xs = "filter ?due (subscriptions db)"
  let ?s = "session_begin (new_session db)"
  let ?g = "\<lambda>y. if ?due y then y\<lparr>status := ''expired''\<rparr> else y"
  have d: "distinct (map sid (subscriptions db))"
    using assms by (simp add: constraints_ok_def)
  have q: "get_expired_subscriptions (utcnow e) ?s =
      (?s, Inr (map (\<lambda>x. (x, rel_user db x, rel_chat db x)) ?xs))"
    by (simp add: get_expired_subscriptions_def new_session_def session_begin_def)
  have a1: "distinct (map sid (subscriptions (staged ?s)))"
    using d by (simp add: new_session_def session_begin_def)
  have a2: "set ?xs \<subseteq> set (subscriptions (staged ?s))"
    by (auto simp add: new_session_def session_begin_def)
  have a3: "distinct (map sid ?xs)"
    using d by (rule distinct_map_filter)
  have a4: "\<forall>x \<in> set ?xs. \<exists>u c. rel_user db x = Some u \<and> rel_chat db x = Some c"
    using relations_loaded [OF assms] by simp
  from expire_each_run [OF a1 a2 a3 a4, of "send_ok e" 0 "[Begin]"]
  obtain blocks where run: "expire_each (send_ok e)
        (map (\<lambda>x. (x, rel_user db x, rel_chat db x)) ?xs) ?s 0 [Begin] =
           (?s\<lparr>staged := (staged ?s)\<lparr>subscriptions :=
                map (\<lambda>y. if sid y \<in> sid ` set ?xs then y\<lparr>status := ''expired''\<rparr> else y)
                  (subscriptions (staged ?s))\<rparr>\<rparr>,
            [Begin] @ concat blocks, None)"
    and blocks: "list_all2 (\<lambda>x b. \<exists>u c. rel_user db x = Some u \<and> rel_chat db x = Some c \<and>
           (b = [Flipped (sid x), Sent (telegram_id u) (expired_text c),
                 Sent (telegram_id u) (removed_text c)] \<or>
            b = [Flipped (sid x), Sent (telegram_id u) (expired_text c),
                 SendFailed (telegram_id u) (removed_text c)] \<or>
            b = [Flipped (sid x), SendFailed (telegram_id u) (expired_text c)])) ?xs blocks"
    by blast
  have rows: "map (\<lambda>y. if sid y \<in> sid ` set ?xs then y\<lparr>status := ''expired''\<rparr> else y)
                (subscriptions db) = map ?g (subscriptions db)"
  proof (rule map_cong [OF refl])
    fix y assume y: "y \<in> set (subscriptions db)"
    have "sid y \<in> sid ` set ?xs \<longleftrightarrow> ?due y"
    proof
      assume "sid y \<in> sid ` set ?xs"
      then obtain z where z: "z \<in> set (subscriptions db)" "?due z" "sid z = sid y"
        by auto
      then have "z \<in> set (filter (\<lambda>z. sid z = sid y) (subscriptions db))"
        by simp
      then have "z = y"
        by (simp add: distinct_key_mem [OF d y])
      with z show "?due y"
        by simp
    next
      assume "?due y"
      with y show "sid y \<in> sid ` set ?xs"
        by auto
    qed
    then show "(if sid y \<in> sid ` set ?xs then y\<lparr>status := ''expired''\<rparr> else y) = ?g y"
      by simp
  qed
  have ok: "constraints_ok (db\<lparr>subscriptions := map ?g (subscriptions db)\<rparr>)"
    by (rule constraints_same_keys [OF assms]) simp
  have st: "?s\<lparr>staged := (staged ?s)\<lparr>subscriptions :=
                map (\<lambda>y. if sid y \<in> sid ` set ?xs then y\<lparr>status := ''expired''\<rparr> else y)
                  (subscriptions (staged ?s))\<rparr>\<rparr> =
            \<lparr>durable = db, staged = db\<lparr>subscriptions := map ?g (subscriptions db)\<rparr>,
             in_begin = True\<rparr>"
    using rows by (simp add: new_session_def session_begin_def)
  have "process_expired_subscriptions e db =
      (db\<lparr>subscriptions := map ?g (subscriptions db)\<rparr>, Begin # concat blocks @ [Commit])"
    unfolding process_expired_subscriptions_def q prod.case sum.case run st
    using ok by (simp add: commit_def)
  with blocks show ?thesis
    by blast
qed

text \<open>
  C3: on every database (one that satisfies the constraints models.py declares), one run
  of the expiry sweep turns to \<^verbatim>\<open>expired\<close> all and only the subscriptions that are
  \<^verbatim>\<open>active\<close> with end\_date \<open>\<le>\<close> now and changes nothing else; a second run at the
  same clock reading finds no due record and leaves the database as it is.
\<close>

theorem expiry_sweep_correct:
  assumes "constraints_ok db"
  shows "fst (process_expired_subscriptions e db) =
           db\<lparr>subscriptions :=
                map (\<lambda>y. if status y = ''active'' \<and> end_date y \<le> utcnow e
                          then y\<lparr>status := ''expired''\<rparr> else y) (subscriptions db)\<rparr> \<and>
         snd (get_expired_subscriptions (utcnow e)
                (new_session (fst (process_expired_subscriptions e db)))) = Inr [] \<and>
         (utcnow e' = utcnow e \<longrightarrow>
            process_expired_subscriptions e' (fst (process_expired_subscriptions e db)) =
              (fst (process_expired_subscriptions e db), [Begin, Commit]))"
proof -
  let ?due = "\<lambda>y. status y = ''active'' \<and> end_date y \<le> utcnow e"
  let ?g = "\<lambda>y. if ?due y then y\<lparr>status := ''expired''\<rparr> else y"
  let ?db' = "db\<lparr>subscriptions := map ?g (subscriptions db)\<rparr>"
  from sweep_run [OF assms, of e]
  have 1: "fst (process_expired_subscriptions e db) = ?db'"
    by auto
  have none: "filter ?due (subscriptions ?db') = []"
    by (auto simp add: filter_empty_conv)
  then have 2: "snd (get_expired_subscriptions (utcnow e) (new_session ?db')) = Inr []"
    by (simp add: get_expired_subscriptions_def new_session_def)
  have ok: "constraints_ok ?db'"
    by (rule constraints_same_keys [OF assms]) simp
  have 3: "process_expired_subscriptions e' ?db' = (?db', [Begin, Commit])"
    if "utcnow e' = utcnow e"
    using none ok that
    by (simp add: process_expired_subscriptions_def get_expired_subscriptions_def
        new_session_def session_begin_def commit_def)
  from 2 3 show ?thesis
    unfolding 1 by blast
qed

lemma sample_constraints: "constraints_ok (db_with [sub_with st])"
  by (simp add: constraints_ok_def present_def sample_defs)

lemma sample_expired:
  "(db_with [sub_with ''active''])\<lparr>subscriptions :=
      map (\<lambda>y. if status y = ''active'' \<and> end_date y \<le> utcnow env0
                then y\<lparr>status := ''expired''\<rparr> else y)
        (subscriptions (db_with [sub_with ''active'']))\<rparr> = db_with [sub_with ''expired'']"
  by (simp add: sample_defs)

theorem expiry_sweep_correct_witness:
  "constraints_ok (db_with [sub_with ''active'']) \<and>
   fst (process_expired_subscriptions env0 (db_with [sub_with ''active''])) =
     db_with [sub_with ''expired''] \<and>
   snd (get_expired_subscriptions (utcnow env0) (new_session (db_with [sub_with ''expired'']))) =
     Inr [] \<and>
   process_expired_subscriptions env0 (db_with [sub_with ''expired'']) =
     (db_with [sub_with ''expired''], [Begin, Commit])"
proof -
  note run = expiry_sweep_correct [OF sample_constraints, of env0 "''active''" env0]
  have r: "fst (process_expired_subscriptions env0 (db_with [sub_with ''active''])) =
      db_with [sub_with ''expired'']"
    using run [THEN conjunct1] unfolding sample_expired .
  show ?thesis
    using sample_constraints [of "''active''"] r run [unfolded r, THEN conjunct2]
    by simp
qed

text \<open>
  C4, as stated: the batch is committed before any expiry notification is sent, and no
  notification is sent while the sweep's transaction is open. It fails: with one due
  subscription, both messages to user 555 are sent after the transaction opened and the
  flip was staged, and before the commit.
\<close>

theorem notify_inside_transaction_counterexample:
  "process_expired_subscriptions env0 (db_with [sub_with ''active'']) =
     (db_with [sub_with ''expired''],
      [Begin, Flipped 1, Sent 555 (expired_text vip), Sent 555 (removed_text vip), Commit])"
  by (simp add: process_expired_subscriptions_def get_expired_subscriptions_def
      update_subscription_status_def scalar_one_or_none_def notify_expired_def
      rel_user_def rel_chat_def session_defs constraints_ok_def present_def sample_defs)

text \<open>
  C4, amended: in every run of the expiry sweep the status flips are committed once, at
  the end of the run, after the notifications: each due record's notification is
  attempted inside the open transaction, right after that record's flip is staged. A
  notification failure for one record neither prevents the processing or the
  notification attempt of the other records nor rolls back any status flip: every due
  record gets its own attempt, and the committed database is the same whichever sends
  fail.

  In the theorem the log of a run is the opening of the transaction, then one block for
  each due record in the order of the query, then the commit; the block of a record is
  its flip followed by the attempt to send the record's user the expiry message of the
  record's chat, and by the attempt at the second message when the first was sent.
\<close>

theorem sweep_commits_after_notifying:
  assumes "constraints_ok db"
  shows "(\<exists>blocks.
            snd (process_expired_subscriptions e db) = Begin # concat blocks @ [Commit] \<and>
            list_all2 (\<lambda>x b. \<exists>u c. rel_user db x = Some u \<and> rel_chat db x = Some c \<and>
                (b = [Flipped (sid x), Sent (telegram_id u) (expired_text c),
                      Sent (telegram_id u) (removed_text c)] \<or>
                 b = [Flipped (sid x), Sent (telegram_id u) (expired_text c),
                      SendFailed (telegram_id u) (removed_text c)] \<or>
                 b = [Flipped (sid x), SendFailed (telegram_id u) (expired_text c)]))
              (filter (\<lambda>y. status y = ''active'' \<and> end_date y \<le> utcnow e) (subscriptions db))
              blocks) \<and>
         fst (process_expired_subscriptions (e\<lparr>send_ok := ok'\<rparr>) db) =
           fst (process_expired_subscriptions e db)"
proof -
  from sweep_run [OF assms, of e]
  have 1: "\<exists>blocks.
            snd (process_expired_subscriptions e db) = Begin # concat blocks @ [Commit] \<and>
            list_all2 (\<lambda>x b. \<exists>u c. rel_user db x = Some u \<and> rel_chat db x = Some c \<and>
                (b = [Flipped (sid x), Sent (telegram_id u) (expired_text c),
                      Sent (telegram_id u) (removed_text c)] \<or>
                 b = [Flipped (sid x), Sent (telegram_id u) (expired_text c),
                      SendFailed (telegram_id u) (removed_text c)] \<or>
                 b = [Flipped (sid x), SendFailed (telegram_id u) (expired_text c)]))
              (filter (\<lambda>y. status y = ''active'' \<and> end_date y \<le> utcnow e) (subscriptions db))
              blocks"
    by force
  from sweep_run [OF assms, of e]
  have 2: "fst (process_expired_subscriptions e db) =
      db\<lparr>subscriptions :=
                map (\<lambda>y. if status y = ''active'' \<and> end_date y \<le> utcnow e
                          then y\<lparr>status := ''expired''\<rparr> else y) (subscriptions db)\<rparr>"
    by force
  from sweep_run [OF assms, of "e\<lparr>send_ok := ok'\<rparr>"]
  have 3: "fst (process_expired_subscriptions (e\<lparr>send_ok := ok'\<rparr>) db) =
      db\<lparr>subscriptions :=
                map (\<lambda>y. if status y = ''active'' \<and> end_date y \<le> utcnow e
                          then y\<lparr>status := ''expired''\<rparr> else y) (subscriptions db)\<rparr>"
    by force
  from 1 2 3 show ?thesis
    by simp
qed

lemma sample_two_constraints: "constraints_ok (db_with [sub_with ''active'', second_sub])"
  by (simp add: constraints_ok_def present_def sample_defs)

lemma sample_first_send_fails:
  "process_expired_subscriptions (env0\<lparr>send_ok := \<lambda>k. k \<noteq> 0\<rparr>)
     (db_with [sub_with ''active'', second_sub]) =
     (db_with [sub_with ''expired'', second_sub\<lparr>status := ''expired''\<rparr>],
      [Begin, Flipped 1, SendFailed 555 (expired_text vip),
       Flipped 2, Sent 555 (expired_text vip), Sent 555 (removed_text vip), Commit])"
  by (simp add: process_expired_subscriptions_def get_expired_subscriptions_def
      update_subscription_status_def scalar_one_or_none_def notify_expired_def
      rel_user_def rel_chat_def session_defs constraints_ok_def present_def sample_defs)

theorem sweep_commits_after_notifying_witness:
  "constraints_ok (db_with [sub_with ''active'', second_sub]) \<and>
   snd (process_expired_subscriptions (env0\<lparr>send_ok := \<lambda>k. k \<noteq> 0\<rparr>)
          (db_with [sub_with ''active'', second_sub])) =
     Begin # concat [[Flipped 1, SendFailed 555 (expired_text vip)],
                     [Flipped 2, Sent 555 (expired_text vip), Sent 555 (removed_text vip)]]
       @ [Commit] \<and>
   fst (process_expired_subscriptions env0 (db_with [sub_with ''active'', second_sub])) =
     db_with [sub_with ''expired'', second_sub\<lparr>status := ''expired''\<rparr>]"
proof -
  have "fst (process_expired_subscriptions (env0\<lparr>send_ok := \<lambda>k. k \<noteq> 0\<rparr>)
          (db_with [sub_with ''active'', second_sub])) =
        fst (process_expired_subscriptions env0 (db_with [sub_with ''active'', second_sub]))"
    using sweep_commits_after_notifying [OF sample_two_constraints, of env0 "\<lambda>k. k \<noteq> 0"]
    by blast
  then show ?thesis
    using sample_two_constraints sample_first_send_fails by simp
qed

section \<open>Confirming a payment\<close>

text \<open>
  As the source stands, the handler never reaches its ownership test: for a subscription
  that exists, the unbound name \<^verbatim>\<open>user\<close> ends the request in the handler's general
  error message, and the database is never written.
\<close>

lemma confirm_payment_as_written:
  "fst (confirm_payment_callback e query db) = db \<and>
   (isdigit (last_field (data query)) \<longrightarrow>
    int_of_str (last_field (data query)) \<le> 2147483647 \<longrightarrow>
    filter (\<lambda>x. sid x = int_of_str (last_field (data query))) (subscriptions db) = [x] \<longrightarrow>
      snd (confirm_payment_callback e query db) = unexpected query)"
  by (simp add: confirm_payment_callback_def confirm_payment_body_def handlers_global_user_def
      get_subscription_by_id_def scalar_one_or_none_def new_session_def session_begin_def
      rollback_def bind_integer_def Let_def split: list.splits)

text \<open>
  With the caller's user record bound to the name, the same handler activates whatever
  is not active yet: the owner confirming the expired sample subscription makes it
  active again.
\<close>

lemma confirm_with_owner_bound:
  "confirm_payment_body (Some alice) env0 (query_of 555 ''confirm_payment_1'')
     (db_with [sub_with ''expired'']) =
     (db_with [sub_with ''active''],
      [PaymentConfirmed ''VIP'' 2592000000000, AddedToChatPlaceholder 555 ''VIP''])"
  by (simp add: confirm_payment_body_def get_subscription_by_id_def
      update_subscription_status_def scalar_one_or_none_def rel_user_def rel_chat_def
      parse_defs session_defs constraints_ok_def present_def bind_integer_def sample_defs)

text \<open>
  C1: a confirmation by someone other than the subscription's user must fail with an
  authorization error. Here user 777 confirms subscription 1, which belongs to user 555
  (row 1): the handler as written answers with its general error message; with the
  caller's record bound to \<^verbatim>\<open>user\<close> the ownership test would answer that the
  subscription is not the caller's. In both, the subscription keeps its status.
\<close>

theorem confirm_by_other_user_at_sample:
  "confirm_payment_callback env0 (query_of 777 ''confirm_payment_1'')
     (db_with [sub_with ''pending_payment'']) =
     (db_with [sub_with ''pending_payment''], [ConfirmUnexpectedError]) \<and>
   confirm_payment_body (Some bob) env0 (query_of 777 ''confirm_payment_1'')
     (db_with [sub_with ''pending_payment'']) =
     (db_with [sub_with ''pending_payment''], [NotYourSubscription])"
  by (simp add: confirm_payment_callback_def confirm_payment_body_def handlers_global_user_def
      unexpected_def get_subscription_by_id_def scalar_one_or_none_def rel_user_def
      rel_chat_def parse_defs session_defs bind_integer_def sample_defs)

text \<open>
  C6: a confirmation by the owner of a subscription that is already active must succeed
  and report the current expiry, changing nothing. Here user 555 confirms the active
  sample subscription: the handler as written answers with its general error message;
  with the owner's record bound to \<^verbatim>\<open>user\<close> it would report the subscription active
  until its end date. In both, start, end and status stay as they were.
\<close>

theorem confirm_active_by_owner_at_sample:
  "confirm_payment_callback env0 (query_of 555 ''confirm_payment_1'')
     (db_with [sub_with ''active'']) =
     (db_with [sub_with ''active''], [ConfirmUnexpectedError]) \<and>
   confirm_payment_body (Some alice) env0 (query_of 555 ''confirm_payment_1'')
     (db_with [sub_with ''active'']) =
     (db_with [sub_with ''active''], [AlreadyActive ''VIP'' 2592000000000])"
  by (simp add: confirm_payment_callback_def confirm_payment_body_def handlers_global_user_def
      unexpected_def get_subscription_by_id_def scalar_one_or_none_def rel_user_def
      rel_chat_def parse_defs session_defs bind_integer_def sample_defs)

section \<open>Status transitions\<close>

lemma remove_keeps_subscriptions:
  "subscriptions (fst (execute_remove_chat_callback e query db)) = subscriptions db"
  by (simp add: execute_remove_chat_callback_def delete_chat_by_id_def get_chat_by_id_def
      commit_def rollback_def delete_chat_def new_session_def session_begin_def Let_def
      split: sum.splits option.splits)

lemma select_appends_pending:
  "\<exists>rows. subscriptions (fst (select_chat_callback e query db)) = subscriptions db @ rows \<and>
          list_all (\<lambda>y. status y = ''pending_payment'') rows"
proof -
  obtain db' r where run: "select_chat_callback e query db = (db', r)"
    by (cases "select_chat_callback e query db")
  from select_chat_new_rows [OF run] show ?thesis
  proof
    assume "subscriptions db' = subscriptions db"
    then have "subscriptions (fst (select_chat_callback e query db)) = subscriptions db @ [] \<and>
        list_all (\<lambda>y. status y = ''pending_payment'') []"
      by (simp add: run)
    then show ?thesis ..
  next
    assume "\<exists>c u i. isdigit (last_field (data query)) \<and>
            filter (\<lambda>c. cid c = int_of_str (last_field (data query))) (chats db) = [c] \<and>
            subscriptions db' = subscriptions db @
              [\<lparr>sid = i, user_id = u, chat_id = cid c,
                start_date = utcnow e, end_date = utcnow e + timedelta_days 30,
                status = ''pending_payment'',
                payment_id = Some (payment_reference_of (uuid4 e)),
                payment_details = Some [(''generated_wallet'', crypto_wallet_address c),
                                        (''network'', crypto_network c),
                                        (''reference'', Some (payment_reference_of (uuid4 e)))]\<rparr>]"
    then obtain row where "subscriptions db' = subscriptions db @ [row]"
      "status row = ''pending_payment''"
      by auto
    then have "subscriptions (fst (select_chat_callback e query db)) = subscriptions db @ [row] \<and>
        list_all (\<lambda>y. status y = ''pending_payment'') [row]"
      by (simp add: run)
    then show ?thesis ..
  qed
qed

text \<open>
  C2: status transitions are monotonic: no operation of the program moves a subscription
  whose status is \<^verbatim>\<open>expired\<close> or \<^verbatim>\<open>cancelled\<close> back to \<^verbatim>\<open>active\<close>. A
  confirm-payment request leaves the whole database as it was, so a subscription that is
  expired or cancelled before the request is so after it; removing a chat leaves the
  subscriptions as they were; a chat selection keeps every subscription and can only add
  rows with status \<^verbatim>\<open>pending_payment\<close>; the expiry sweep keeps every row in its
  place with its id, leaves every row whose status is not \<^verbatim>\<open>active\<close> exactly as it
  was, and a row that is active after the sweep is the unchanged row of before.
\<close>

theorem closed_subscriptions_stay_closed:
  "fst (confirm_payment_callback e query db) = db \<and>
   subscriptions (fst (execute_remove_chat_callback e query db)) = subscriptions db \<and>
   (\<exists>rows. subscriptions (fst (select_chat_callback e query db)) = subscriptions db @ rows \<and>
      list_all (\<lambda>y. status y = ''pending_payment'') rows) \<and>
   (constraints_ok db \<longrightarrow>
      list_all2 (\<lambda>x y. sid y = sid x \<and> (status x \<noteq> ''active'' \<longrightarrow> y = x) \<and>
                         (status y = ''active'' \<longrightarrow> y = x))
        (subscriptions db) (subscriptions (fst (process_expired_subscriptions e db))))"
proof -
  have a: "fst (confirm_payment_callback e query db) = db"
    using confirm_payment_as_written [of e query db] by blast
  have b: "list_all2 (\<lambda>x y. sid y = sid x \<and> (status x \<noteq> ''active'' \<longrightarrow> y = x) \<and>
                         (status y = ''active'' \<longrightarrow> y = x))
        (subscriptions db) (subscriptions (fst (process_expired_subscriptions e db)))"
    if ok: "constraints_ok db"
  proof -
    from sweep_run [OF ok, of e]
    have "subscriptions (fst (process_expired_subscriptions e db)) =
        map (\<lambda>y. if status y = ''active'' \<and> end_date y \<le> utcnow e
                  then y\<lparr>status := ''expired''\<rparr> else y) (subscriptions db)"
      by force
    then show ?thesis
      by (simp add: list_all2_map2 list_all2_same)
  qed
  from a b remove_keeps_subscriptions [of e query db] select_appends_pending [of e query db]
  show ?thesis
    by blast
qed

theorem closed_subscriptions_stay_closed_witness:
  "fst (confirm_payment_callback env0 (query_of 555 ''confirm_payment_1'')
          (db_with [sub_with ''expired''])) = db_with [sub_with ''expired''] \<and>
   constraints_ok (db_with [sub_with ''cancelled'']) \<and>
   subscriptions (fst (process_expired_subscriptions env0 (db_with [sub_with ''cancelled'']))) =
     [sub_with ''cancelled'']"
proof -
  have b: "subscriptions (db_with [sub_with ''cancelled'']) = [sub_with ''cancelled'']"
    "status (sub_with ''cancelled'') \<noteq> ''active''"
    by (simp_all add: sub_with_def db_with_def)
  show ?thesis
    using b sample_constraints [of "''cancelled''"]
      closed_subscriptions_stay_closed [of env0 "query_of 555 ''confirm_payment_1''"
        "db_with [sub_with ''expired'']"]
      closed_subscriptions_stay_closed [of env0 "query_of 555 ''confirm_payment_1''"
        "db_with [sub_with ''cancelled'']"]
    by (auto simp add: list_all2_Cons1)
qed

end
